theory Spec2Isabelle
  imports Main
begin

section \<open>Dates\<close>

text \<open>
  A JavaScript \<open>Date\<close> is a time value: milliseconds since 1970-01-01T00:00:00Z. The
  calendar functions below are the ones of ECMAScript (\<open>Day\<close>, \<open>TimeWithinDay\<close>,
  \<open>YearFromTime\<close>, \<open>MonthFromTime\<close>, \<open>DateFromTime\<close>, \<open>MakeDay\<close>, \<open>MakeDate\<close>) in the
  proleptic Gregorian calendar. The server's local time zone is taken to be UTC, so
  \<open>LocalTime t = t\<close>. Months are numbered from 0, as \<open>getMonth\<close> does. A time value is
  that of a valid date, at most \<open>maxTime\<close> milliseconds from the epoch on either side;
  \<open>setMonth\<close> is modelled for results within that range (\<open>TimeClip\<close> turns any other
  result into an invalid date, which is outside this model).
\<close>

type_synonym date = int

definition msPerDay :: int where
  "msPerDay = 86400000"

definition maxTime :: int where
  "maxTime = 8640000000000000"

definition valid_time :: "date \<Rightarrow> bool" where
  "valid_time t = (- maxTime \<le> t \<and> t \<le> maxTime)"

definition Day :: "date \<Rightarrow> int" where
  "Day t = t div msPerDay"

definition TimeWithinDay :: "date \<Rightarrow> int" where
  "TimeWithinDay t = t mod msPerDay"

text \<open>
  The civil date (year, month 0..11, day of month 1..31) of a day number, counted in
  400-year eras of 146097 days that start on 1 March.
\<close>

definition civil_from_days :: "int \<Rightarrow> int \<times> int \<times> int" where
  "civil_from_days z =
     (let z1 = z + 719468;
          era = z1 div 146097;
          doe = z1 - era * 146097;
          yoe = (doe - doe div 1460 + doe div 36524 - doe div 146096) div 365;
          doy = doe - (365 * yoe + yoe div 4 - yoe div 100);
          mp = (5 * doy + 2) div 153;
          d = doy - (153 * mp + 2) div 5 + 1;
          m = (if mp < 10 then mp + 2 else mp - 10);
          y = yoe + era * 400 + (if m \<le> 1 then 1 else 0)
      in (y, m, d))"

text \<open>The day number of the first day of month \<open>m\<close> (0..11) of year \<open>y\<close>.\<close>

definition days_from_civil :: "int \<Rightarrow> int \<Rightarrow> int" where
  "days_from_civil y m =
     (let y1 = y - (if m \<le> 1 then 1 else 0);
          era = y1 div 400;
          yoe = y1 - era * 400;
          doy = (153 * (if m > 1 then m - 2 else m + 10) + 2) div 5;
          doe = yoe * 365 + yoe div 4 - yoe div 100 + doy
      in era * 146097 + doe - 719468)"

definition YearFromTime :: "date \<Rightarrow> int" where
  "YearFromTime t = fst (civil_from_days (Day t))"

definition MonthFromTime :: "date \<Rightarrow> int" where
  "MonthFromTime t = fst (snd (civil_from_days (Day t)))"

definition DateFromTime :: "date \<Rightarrow> int" where
  "DateFromTime t = snd (snd (civil_from_days (Day t)))"

text \<open>
  \<open>MakeDay\<close> accepts a month outside 0..11 and a day outside the month: the month
  carries into the year, and the day is counted on from the first of the month.
\<close>

definition MakeDay :: "int \<Rightarrow> int \<Rightarrow> int \<Rightarrow> int" where
  "MakeDay year month dt =
     (let ym = year + month div 12;
          mn = month mod 12
      in days_from_civil ym mn + dt - 1)"

definition MakeDate :: "int \<Rightarrow> int \<Rightarrow> date" where
  "MakeDate day time = day * msPerDay + time"

definition getMonth :: "date \<Rightarrow> int" where
  "getMonth t = MonthFromTime t"

definition setMonth :: "date \<Rightarrow> int \<Rightarrow> date" where
  "setMonth t m = MakeDate (MakeDay (YearFromTime t) m (DateFromTime t)) (TimeWithinDay t)"

text \<open>
  \<open>d = new Date(baseDate); d.setMonth(d.getMonth() + 1)\<close>: the date the record model
  calls one month after \<open>baseDate\<close>.
\<close>

definition addMonth :: "date \<Rightarrow> date" where
  "addMonth baseDate = setMonth baseDate (getMonth baseDate + 1)"

text \<open>The time value of midnight UTC of a civil date, with the month counted from 1.\<close>

definition utc :: "int \<Rightarrow> int \<Rightarrow> int \<Rightarrow> date" where
  "utc y m d = MakeDate (MakeDay y (m - 1) d) 0"

section \<open>The student record\<close>

text \<open>
  A stored document of the \<open>Student\<close> collection. \<open>sid\<close> is the document's \<open>_id\<close>
  (24 hexadecimal characters). Fee amounts are taken to be integers. An optional path
  that is not set is \<open>None\<close>.
\<close>

record student =
  sid :: string
  name :: string
  email :: string
  phone :: string
  address :: string
  course :: string
  batchTime :: string
  feeAmount :: int
  feeStatus :: string
  joinDate :: date
  guardianName :: string
  guardianPhone :: string
  notes_field :: "string option"
  isActive :: bool
  lastFeePayment :: "date option"
  nextFeePayment :: "date option"
  createdAt :: date
  updatedAt :: date

text \<open>The collection, in insertion order.\<close>

type_synonym store = "student list"

subsection \<open>The pre-save middleware\<close>

text \<open>
  \<open>studentSchema.pre("save")\<close>. \<open>now\<close> is the clock read by \<open>new Date()\<close> in the hook,
  \<open>isNew\<close> the document's flag, \<open>lfpModified\<close> the value of
  \<open>this.isModified("lastFeePayment")\<close>. The two statements run in the source's order:
  the next payment date first, the stamp of the last payment second.
\<close>

definition pre_save :: "date \<Rightarrow> bool \<Rightarrow> bool \<Rightarrow> student \<Rightarrow> student" where
  "pre_save now isNew lfpModified s =
     (let s1 = (if isNew \<or> lfpModified
                then (let baseDate = (case lastFeePayment s of Some d \<Rightarrow> d | None \<Rightarrow> joinDate s)
                      in s\<lparr>nextFeePayment := Some (addMonth baseDate)\<rparr>)
                else s)
      in if feeStatus s1 = ''paid'' \<and> lastFeePayment s1 = None
         then s1\<lparr>lastFeePayment := Some now\<rparr>
         else s1)"

section \<open>Strings and patterns\<close>

text \<open>
  Strings are ASCII. \<open>trim\<close> is \<open>String.prototype.trim\<close> (and the validator's \<open>trim()\<close>
  with no character set), \<open>toLowerCase\<close> the method of the same name.
\<close>

definition is_space :: "char \<Rightarrow> bool" where
  "is_space c = (c = CHR '' '' \<or> c = CHR 0x09 \<or> c = CHR 0x0A \<or> c = CHR 0x0B \<or>
                 c = CHR 0x0C \<or> c = CHR 0x0D)"

definition trim :: "string \<Rightarrow> string" where
  "trim s = rev (dropWhile is_space (rev (dropWhile is_space s)))"

definition code :: "char \<Rightarrow> nat" where
  "code c = of_char c"

definition is_upper :: "char \<Rightarrow> bool" where
  "is_upper c = (65 \<le> code c \<and> code c \<le> 90)"

definition is_lower :: "char \<Rightarrow> bool" where
  "is_lower c = (97 \<le> code c \<and> code c \<le> 122)"

definition is_digit :: "char \<Rightarrow> bool" where
  "is_digit c = (48 \<le> code c \<and> code c \<le> 57)"

definition lower_char :: "char \<Rightarrow> char" where
  "lower_char c = (if is_upper c then char_of (code c + 32) else c)"

definition toLowerCase :: "string \<Rightarrow> string" where
  "toLowerCase s = map lower_char s"

text \<open>\<open>\w\<close>: a letter, a digit or the underscore.\<close>

definition is_word :: "char \<Rightarrow> bool" where
  "is_word c = (is_upper c \<or> is_lower c \<or> is_digit c \<or> c = CHR ''_'')"

text \<open>\<open>String.prototype.includes\<close>: \<open>t\<close> occurs in \<open>s\<close> as a contiguous block.\<close>

fun starts_with :: "string \<Rightarrow> string \<Rightarrow> bool" where
  "starts_with [] s = True"
| "starts_with (p # ps) [] = False"
| "starts_with (p # ps) (c # cs) = (p = c \<and> starts_with ps cs)"

fun str_includes :: "string \<Rightarrow> string \<Rightarrow> bool" where
  "str_includes [] t = (t = [])"
| "str_includes (c # cs) t = (starts_with t (c # cs) \<or> str_includes cs t)"

text \<open>\<open>str.split(sep)\<close> for a separator of one character.\<close>

fun split_on :: "char \<Rightarrow> string \<Rightarrow> string list" where
  "split_on sep [] = [[]]"
| "split_on sep (c # cs) =
     (case split_on sep cs of
        [] \<Rightarrow> [[c]]
      | p # ps \<Rightarrow> if c = sep then [] # p # ps else (c # p) # ps)"

subsection \<open>Regular expressions\<close>

text \<open>
  The patterns of the schema are anchored at both ends and use character classes,
  sequence, choice and repetition only, so whether \<open>test\<close> succeeds is whether the whole
  string is in the language of the pattern. Membership is decided by derivatives.
\<close>

datatype rexp =
    Zero
  | Eps
  | Sym "char \<Rightarrow> bool"
  | Alt rexp rexp
  | Seq rexp rexp
  | Star rexp

fun nullable :: "rexp \<Rightarrow> bool" where
  "nullable Zero = False"
| "nullable Eps = True"
| "nullable (Sym p) = False"
| "nullable (Alt r s) = (nullable r \<or> nullable s)"
| "nullable (Seq r s) = (nullable r \<and> nullable s)"
| "nullable (Star r) = True"

fun alt :: "rexp \<Rightarrow> rexp \<Rightarrow> rexp" where
  "alt Zero s = s"
| "alt r Zero = r"
| "alt r s = Alt r s"

fun seq :: "rexp \<Rightarrow> rexp \<Rightarrow> rexp" where
  "seq Zero s = Zero"
| "seq r Zero = Zero"
| "seq Eps s = s"
| "seq r s = Seq r s"

fun deriv :: "char \<Rightarrow> rexp \<Rightarrow> rexp" where
  "deriv c Zero = Zero"
| "deriv c Eps = Zero"
| "deriv c (Sym p) = (if p c then Eps else Zero)"
| "deriv c (Alt r s) = alt (deriv c r) (deriv c s)"
| "deriv c (Seq r s) =
     (if nullable r then alt (seq (deriv c r) s) (deriv c s) else seq (deriv c r) s)"
| "deriv c (Star r) = seq (deriv c r) (Star r)"

fun rmatch :: "rexp \<Rightarrow> string \<Rightarrow> bool" where
  "rmatch r [] = nullable r"
| "rmatch r (c # cs) = rmatch (deriv c r) cs"

text \<open>
  The language of a pattern, for reference: \<open>rmatch\<close> decides membership in it
  (\<open>rmatch_iff\<close> below).
\<close>

inductive_set star :: "string set \<Rightarrow> string set" for A :: "string set" where
  star_empty: "[] \<in> star A"
| star_step: "u \<in> A \<Longrightarrow> v \<in> star A \<Longrightarrow> u @ v \<in> star A"

fun lang :: "rexp \<Rightarrow> string set" where
  "lang Zero = {}"
| "lang Eps = {[]}"
| "lang (Sym p) = {[c] | c. p c}"
| "lang (Alt r s) = lang r \<union> lang s"
| "lang (Seq r s) = {u @ v | u v. u \<in> lang r \<and> v \<in> lang s}"
| "lang (Star r) = star (lang r)"

definition Opt :: "rexp \<Rightarrow> rexp" where
  "Opt r = Alt Eps r"

definition Plus :: "rexp \<Rightarrow> rexp" where
  "Plus r = Seq r (Star r)"

definition Lit :: "char \<Rightarrow> rexp" where
  "Lit c = Sym (\<lambda>x. x = c)"

text \<open>\<open>r{0,n}\<close>\<close>

fun UpTo :: "nat \<Rightarrow> rexp \<Rightarrow> rexp" where
  "UpTo 0 r = Eps"
| "UpTo (Suc n) r = Opt (Seq r (UpTo n r))"

text \<open>\<open>/^[\+]?[1-9][\d]{0,15}$/\<close>, the phone pattern of the schema and of the routes.\<close>

definition phone_rx :: rexp where
  "phone_rx = Seq (Opt (Lit CHR ''+''))
                (Seq (Sym (\<lambda>c. 49 \<le> code c \<and> code c \<le> 57)) (UpTo 15 (Sym is_digit)))"

definition phone_match :: "string \<Rightarrow> bool" where
  "phone_match s = rmatch phone_rx s"

text \<open>\<open>/^\w+([.-]?\w+)*@\w+([.-]?\w+)*(\.\w{2,3})+$/\<close>, the email pattern of the schema.\<close>

definition dot_or_dash :: rexp where
  "dot_or_dash = Sym (\<lambda>c. c = CHR ''.'' \<or> c = CHR ''-'')"

definition words_rx :: rexp where
  "words_rx = Seq (Plus (Sym is_word)) (Star (Seq (Opt dot_or_dash) (Plus (Sym is_word))))"

text \<open>\<open>\.\w{2,3}\<close>\<close>

definition label_rx :: rexp where
  "label_rx = Seq (Lit CHR ''.'') (Seq (Sym is_word) (Seq (Sym is_word) (Opt (Sym is_word))))"

definition email_rx :: rexp where
  "email_rx = Seq words_rx (Seq (Lit CHR ''@'') (Seq words_rx (Plus label_rx)))"

definition email_match :: "string \<Rightarrow> bool" where
  "email_match s = rmatch email_rx s"

text \<open>The string ends in a dot and two or three word characters.\<close>

definition ends_in_label :: "string \<Rightarrow> bool" where
  "ends_in_label w = (\<exists>u t. w = u @ CHR ''.'' # t \<and> (length t = 2 \<or> length t = 3) \<and> list_all is_word t)"

section \<open>Request bodies and route-level validation\<close>

text \<open>
  The JSON body of a create or update request, read at the paths the schema knows. A
  path the request does not carry is \<open>None\<close>; text paths carry strings, \<open>feeAmount\<close> an
  integer, the date paths a time value.
\<close>

record student_input =
  in_name :: "string option"
  in_email :: "string option"
  in_phone :: "string option"
  in_address :: "string option"
  in_course :: "string option"
  in_batchTime :: "string option"
  in_feeAmount :: "int option"
  in_feeStatus :: "string option"
  in_joinDate :: "date option"
  in_guardianName :: "string option"
  in_guardianPhone :: "string option"
  in_notes :: "string option"
  in_isActive :: "bool option"
  in_lastFeePayment :: "date option"
  in_nextFeePayment :: "date option"

definition empty_input :: student_input where
  "empty_input =
     \<lparr>in_name = None, in_email = None, in_phone = None, in_address = None,
      in_course = None, in_batchTime = None, in_feeAmount = None, in_feeStatus = None,
      in_joinDate = None, in_guardianName = None, in_guardianPhone = None,
      in_notes = None, in_isActive = None, in_lastFeePayment = None,
      in_nextFeePayment = None\<rparr>"

text \<open>
  The two functions of the validation library that read an email address, \<open>isEmail\<close>
  and \<open>normalizeEmail\<close>, are outside the repository and are parameters of the model.
\<close>

record validator_lib =
  isEmail :: "string \<Rightarrow> bool"
  normalizeEmail :: "string \<Rightarrow> string"

text \<open>A validation error: the path and the message.\<close>

type_synonym verr = "string \<times> string"

text \<open>The library validates the string form of a value; a missing value is the empty string.\<close>

definition str_of :: "string option \<Rightarrow> string" where
  "str_of v = (case v of None \<Rightarrow> [] | Some x \<Rightarrow> x)"

definition check :: "bool \<Rightarrow> string \<Rightarrow> string \<Rightarrow> verr list" where
  "check ok path msg = (if ok then [] else [(path, msg)])"

text \<open>
  \<open>isNumeric\<close> on the string form of an integer: the decimal digits with an optional
  sign, unless the number is printed in exponent form (from \<open>10^21\<close> on).
\<close>

definition isNumeric :: "int option \<Rightarrow> bool" where
  "isNumeric v = (case v of None \<Rightarrow> False | Some n \<Rightarrow> \<bar>n\<bar> < 10 ^ 21)"

definition rupee :: string where
  "rupee = [CHR 0xE2, CHR 0x82, CHR 0xB9]"

definition fee_max_msg :: string where
  "fee_max_msg = ''Fee amount cannot exceed '' @ rupee @ ''50,000''"

text \<open>The custom validator of \<open>feeAmount\<close>: the first \<open>throw\<close> that fires, if any.\<close>

definition fee_custom :: "int option \<Rightarrow> verr list" where
  "fee_custom v =
     (case v of
        None \<Rightarrow> []
      | Some n \<Rightarrow>
          if n < 0 then [(''feeAmount'', ''Fee amount cannot be negative'')]
          else if n > 50000 then [(''feeAmount'', fee_max_msg)]
          else [])"

definition fee_statuses :: "string list" where
  "fee_statuses = [''paid'', ''pending'', ''overdue'']"

definition optional :: "'a option \<Rightarrow> ('a \<Rightarrow> verr list) \<Rightarrow> verr list" where
  "optional v chain = (case v of None \<Rightarrow> [] | Some x \<Rightarrow> chain x)"

text \<open>
  \<open>validateStudent\<close>: the errors of the eleven chains in order, and the body as the
  sanitizers (\<open>trim\<close>, \<open>normalizeEmail\<close>) leave it.
\<close>

definition validateStudent_errors :: "validator_lib \<Rightarrow> student_input \<Rightarrow> verr list" where
  "validateStudent_errors lib b =
     (let nm = trim (str_of (in_name b));
          ad = trim (str_of (in_address b));
          bt = trim (str_of (in_batchTime b));
          gn = trim (str_of (in_guardianName b))
      in check (nm \<noteq> []) ''name'' ''Name is required''
       @ check (2 \<le> length nm \<and> length nm \<le> 100) ''name''
           ''Name must be between 2 and 100 characters''
       @ check (isEmail lib (str_of (in_email b))) ''email''
           ''Please enter a valid email address''
       @ check (phone_match (str_of (in_phone b))) ''phone''
           ''Please enter a valid phone number''
       @ check (ad \<noteq> []) ''address'' ''Address is required''
       @ check (length ad \<le> 500) ''address'' ''Address cannot exceed 500 characters''
       @ check (str_of (in_course b) \<noteq> []) ''course'' ''Course is required''
       @ check (bt \<noteq> []) ''batchTime'' ''Batch time is required''
       @ check (isNumeric (in_feeAmount b)) ''feeAmount'' ''Fee amount must be a number''
       @ fee_custom (in_feeAmount b)
       @ optional (in_feeStatus b) (\<lambda>v. check (v \<in> set fee_statuses) ''feeStatus''
           ''Fee status must be paid, pending, or overdue'')
       @ check (gn \<noteq> []) ''guardianName'' ''Guardian name is required''
       @ check (length gn \<le> 100) ''guardianName''
           ''Guardian name cannot exceed 100 characters''
       @ check (phone_match (str_of (in_guardianPhone b))) ''guardianPhone''
           ''Please enter a valid guardian phone number''
       @ optional (in_notes b) (\<lambda>v. check (length v \<le> 1000) ''notes''
           ''Notes cannot exceed 1000 characters''))"

definition validateStudent_body :: "validator_lib \<Rightarrow> student_input \<Rightarrow> student_input" where
  "validateStudent_body lib b =
     b\<lparr>in_name := Some (trim (str_of (in_name b))),
       in_email := Some (normalizeEmail lib (str_of (in_email b))),
       in_address := Some (trim (str_of (in_address b))),
       in_batchTime := Some (trim (str_of (in_batchTime b))),
       in_guardianName := Some (trim (str_of (in_guardianName b)))\<rparr>"

text \<open>\<open>validateStudentUpdate\<close>: every chain is optional.\<close>

definition validateStudentUpdate_errors :: "validator_lib \<Rightarrow> student_input \<Rightarrow> verr list" where
  "validateStudentUpdate_errors lib b =
     optional (in_name b) (\<lambda>v.
         check (trim v \<noteq> []) ''name'' ''Name cannot be empty''
       @ check (2 \<le> length (trim v) \<and> length (trim v) \<le> 100) ''name''
           ''Name must be between 2 and 100 characters'')
     @ optional (in_email b) (\<lambda>v.
         check (isEmail lib v) ''email'' ''Please enter a valid email address'')
     @ optional (in_phone b) (\<lambda>v.
         check (phone_match v) ''phone'' ''Please enter a valid phone number'')
     @ optional (in_address b) (\<lambda>v.
         check (trim v \<noteq> []) ''address'' ''Address cannot be empty''
       @ check (length (trim v) \<le> 500) ''address'' ''Address cannot exceed 500 characters'')
     @ optional (in_course b) (\<lambda>v. check (v \<noteq> []) ''course'' ''Course cannot be empty'')
     @ optional (in_batchTime b) (\<lambda>v.
         check (trim v \<noteq> []) ''batchTime'' ''Batch time cannot be empty'')
     @ optional (in_feeAmount b) (\<lambda>n.
         check (isNumeric (Some n)) ''feeAmount'' ''Fee amount must be a number''
       @ fee_custom (Some n))
     @ optional (in_feeStatus b) (\<lambda>v. check (v \<in> set fee_statuses) ''feeStatus''
         ''Fee status must be paid, pending, or overdue'')
     @ optional (in_guardianName b) (\<lambda>v.
         check (trim v \<noteq> []) ''guardianName'' ''Guardian name cannot be empty''
       @ check (length (trim v) \<le> 100) ''guardianName''
           ''Guardian name cannot exceed 100 characters'')
     @ optional (in_guardianPhone b) (\<lambda>v.
         check (phone_match v) ''guardianPhone'' ''Please enter a valid guardian phone number'')
     @ optional (in_notes b) (\<lambda>v. check (length v \<le> 1000) ''notes''
         ''Notes cannot exceed 1000 characters'')"

definition validateStudentUpdate_body :: "validator_lib \<Rightarrow> student_input \<Rightarrow> student_input" where
  "validateStudentUpdate_body lib b =
     b\<lparr>in_name := map_option trim (in_name b),
       in_email := map_option (normalizeEmail lib) (in_email b),
       in_address := map_option trim (in_address b),
       in_batchTime := map_option trim (in_batchTime b),
       in_guardianName := map_option trim (in_guardianName b)\<rparr>"

text \<open>\<open>isMongoId\<close>: 24 hexadecimal digits.\<close>

definition is_hex :: "char \<Rightarrow> bool" where
  "is_hex c = (is_digit c \<or> (65 \<le> code c \<and> code c \<le> 70) \<or> (97 \<le> code c \<and> code c \<le> 102))"

definition isMongoId :: "string \<Rightarrow> bool" where
  "isMongoId s = (length s = 24 \<and> list_all is_hex s)"

definition validateObjectId_errors :: "string \<Rightarrow> verr list" where
  "validateObjectId_errors ident = check (isMongoId ident) ''id'' ''Invalid student ID format''"

section \<open>The schema\<close>

definition course_catalog :: "string list" where
  "course_catalog =
     [''Mathematics - Class 9'', ''Mathematics - Class 10'', ''Mathematics - Class 11'',
      ''Mathematics - Class 12'', ''Physics - Class 9'', ''Physics - Class 10'',
      ''Physics - Class 11'', ''Physics - Class 12'', ''Chemistry - Class 9'',
      ''Chemistry - Class 10'', ''Chemistry - Class 11'', ''Chemistry - Class 12'',
      ''Biology - Class 11'', ''Biology - Class 12'', ''English - Class 9'',
      ''English - Class 10'', ''English - Class 11'', ''English - Class 12'',
      ''Computer Science - Class 11'', ''Computer Science - Class 12'']"

text \<open>
  The setters of the schema (\<open>trim\<close>, \<open>lowercase\<close>). The document store applies them
  to a value that is assigned to a path, to a value of an update and to a value a query
  compares a path with.
\<close>

definition set_trim :: "string option \<Rightarrow> string option" where
  "set_trim v = map_option trim v"

definition set_email :: "string \<Rightarrow> string" where
  "set_email v = toLowerCase (trim v)"

definition apply_setters :: "student_input \<Rightarrow> student_input" where
  "apply_setters d =
     d\<lparr>in_name := set_trim (in_name d),
       in_email := map_option set_email (in_email d),
       in_phone := set_trim (in_phone d),
       in_address := set_trim (in_address d),
       in_course := set_trim (in_course d),
       in_batchTime := set_trim (in_batchTime d),
       in_guardianName := set_trim (in_guardianName d),
       in_guardianPhone := set_trim (in_guardianPhone d),
       in_notes := set_trim (in_notes d)\<rparr>"

definition default_to :: "'a \<Rightarrow> 'a option \<Rightarrow> 'a option" where
  "default_to x v = (case v of None \<Rightarrow> Some x | Some y \<Rightarrow> Some y)"

text \<open>
  \<open>new Student(studentData)\<close>: setters, then the defaults of the paths the data leave
  out. \<open>t0\<close> is the value of \<open>Date.now\<close> when the document is built.
\<close>

definition new_Student :: "date \<Rightarrow> student_input \<Rightarrow> student_input" where
  "new_Student t0 studentData =
     (let d = apply_setters studentData
      in d\<lparr>in_feeStatus := default_to ''pending'' (in_feeStatus d),
           in_joinDate := default_to t0 (in_joinDate d),
           in_isActive := default_to True (in_isActive d)\<rparr>)"

text \<open>
  The validators of a path run in the order \<open>required\<close>, then the order of the schema;
  the first one that fails gives the error of the path.
\<close>

fun first_failure :: "string \<Rightarrow> (bool \<times> string) list \<Rightarrow> verr list" where
  "first_failure path [] = []"
| "first_failure path ((ok, msg) # vs) = (if ok then first_failure path vs else [(path, msg)])"

text \<open>\<open>required\<close> on a text path fails on a missing value and on the empty string.\<close>

definition has_text :: "string option \<Rightarrow> bool" where
  "has_text v = (case v of None \<Rightarrow> False | Some x \<Rightarrow> x \<noteq> [])"

text \<open>The other validators of a text path pass on a missing value.\<close>

definition holds :: "('a \<Rightarrow> bool) \<Rightarrow> 'a option \<Rightarrow> bool" where
  "holds P v = (case v of None \<Rightarrow> True | Some x \<Rightarrow> P x)"

text \<open>\<open>match\<close> also passes on the empty string.\<close>

definition matches :: "(string \<Rightarrow> bool) \<Rightarrow> string option \<Rightarrow> bool" where
  "matches P v = holds (\<lambda>x. x = [] \<or> P x) v"

definition name_errors :: "string option \<Rightarrow> verr list" where
  "name_errors v = first_failure ''name''
     [(has_text v, ''Student name is required''),
      (holds (\<lambda>x. length x \<le> 100) v, ''Name cannot exceed 100 characters''),
      (holds (\<lambda>x. 2 \<le> length x) v, ''Name must be at least 2 characters'')]"

definition email_errors :: "string option \<Rightarrow> verr list" where
  "email_errors v = first_failure ''email''
     [(has_text v, ''Email is required''),
      (matches email_match v, ''Please enter a valid email address'')]"

definition phone_errors :: "string option \<Rightarrow> verr list" where
  "phone_errors v = first_failure ''phone''
     [(has_text v, ''Phone number is required''),
      (matches phone_match v, ''Please enter a valid phone number'')]"

definition address_errors :: "string option \<Rightarrow> verr list" where
  "address_errors v = first_failure ''address''
     [(has_text v, ''Address is required''),
      (holds (\<lambda>x. length x \<le> 500) v, ''Address cannot exceed 500 characters'')]"

definition course_errors :: "string option \<Rightarrow> verr list" where
  "course_errors v = first_failure ''course''
     [(has_text v, ''Course is required''),
      (holds (\<lambda>x. x \<in> set course_catalog) v, ''Please select a valid course'')]"

definition batchTime_errors :: "string option \<Rightarrow> verr list" where
  "batchTime_errors v = first_failure ''batchTime'' [(has_text v, ''Batch time is required'')]"

text \<open>
  The message of \<open>max\<close> as the schema file has it: the currency sign there is the
  seven bytes C3 A2 E2 80 9A C2 B9, not the three of the route's message.
\<close>

definition schema_fee_max_msg :: string where
  "schema_fee_max_msg =
     ''Fee amount cannot exceed ''
     @ [CHR 0xC3, CHR 0xA2, CHR 0xE2, CHR 0x80, CHR 0x9A, CHR 0xC2, CHR 0xB9] @ ''50,000''"

definition feeAmount_errors :: "int option \<Rightarrow> verr list" where
  "feeAmount_errors v = first_failure ''feeAmount''
     [(v \<noteq> None, ''Fee amount is required''),
      (holds (\<lambda>n. 0 \<le> n) v, ''Fee amount cannot be negative''),
      (holds (\<lambda>n. n \<le> 50000) v, schema_fee_max_msg)]"

definition feeStatus_errors :: "string option \<Rightarrow> verr list" where
  "feeStatus_errors v = first_failure ''feeStatus''
     [(has_text v, ''Path `feeStatus` is required.''),
      (holds (\<lambda>x. x \<in> set fee_statuses) v, ''Fee status must be paid, pending, or overdue'')]"

definition joinDate_errors :: "date option \<Rightarrow> verr list" where
  "joinDate_errors v = first_failure ''joinDate'' [(v \<noteq> None, ''Join date is required'')]"

definition guardianName_errors :: "string option \<Rightarrow> verr list" where
  "guardianName_errors v = first_failure ''guardianName''
     [(has_text v, ''Guardian name is required''),
      (holds (\<lambda>x. length x \<le> 100) v, ''Guardian name cannot exceed 100 characters'')]"

definition guardianPhone_errors :: "string option \<Rightarrow> verr list" where
  "guardianPhone_errors v = first_failure ''guardianPhone''
     [(has_text v, ''Guardian phone number is required''),
      (matches phone_match v, ''Please enter a valid guardian phone number'')]"

definition notes_errors :: "string option \<Rightarrow> verr list" where
  "notes_errors v = first_failure ''notes''
     [(holds (\<lambda>x. length x \<le> 1000) v, ''Notes cannot exceed 1000 characters'')]"

text \<open>Validation of a whole document, as \<open>save\<close> runs it.\<close>

definition schema_errors :: "student_input \<Rightarrow> verr list" where
  "schema_errors d =
     name_errors (in_name d) @ email_errors (in_email d) @ phone_errors (in_phone d)
     @ address_errors (in_address d) @ course_errors (in_course d)
     @ batchTime_errors (in_batchTime d) @ feeAmount_errors (in_feeAmount d)
     @ feeStatus_errors (in_feeStatus d) @ joinDate_errors (in_joinDate d)
     @ guardianName_errors (in_guardianName d) @ guardianPhone_errors (in_guardianPhone d)
     @ notes_errors (in_notes d)"

text \<open>
  Update validators (\<open>runValidators: true\<close>): the validators of the paths the update
  sets, and of no other path.
\<close>

definition update_errors :: "student_input \<Rightarrow> verr list" where
  "update_errors u =
     optional (in_name u) (\<lambda>v. name_errors (Some v))
     @ optional (in_email u) (\<lambda>v. email_errors (Some v))
     @ optional (in_phone u) (\<lambda>v. phone_errors (Some v))
     @ optional (in_address u) (\<lambda>v. address_errors (Some v))
     @ optional (in_course u) (\<lambda>v. course_errors (Some v))
     @ optional (in_batchTime u) (\<lambda>v. batchTime_errors (Some v))
     @ optional (in_feeAmount u) (\<lambda>v. feeAmount_errors (Some v))
     @ optional (in_feeStatus u) (\<lambda>v. feeStatus_errors (Some v))
     @ optional (in_guardianName u) (\<lambda>v. guardianName_errors (Some v))
     @ optional (in_guardianPhone u) (\<lambda>v. guardianPhone_errors (Some v))
     @ optional (in_notes u) (\<lambda>v. notes_errors (Some v))"

section \<open>The document store\<close>

datatype store_error =
    ValidationError "verr list"
  | DuplicateKey
  | BadSkip
  | BadRegex

text \<open>
  The stored form of a validated document; \<open>None\<close> when a required path is missing.
  \<open>oid\<close> is the identifier the new document was given, \<open>now\<close> the time of the write
  (the store maintains \<open>createdAt\<close> and \<open>updatedAt\<close>).
\<close>

definition to_student :: "string \<Rightarrow> date \<Rightarrow> student_input \<Rightarrow> student option" where
  "to_student oid now d =
     Option.bind (in_name d) (\<lambda>nm.
     Option.bind (in_email d) (\<lambda>em.
     Option.bind (in_phone d) (\<lambda>ph.
     Option.bind (in_address d) (\<lambda>ad.
     Option.bind (in_course d) (\<lambda>co.
     Option.bind (in_batchTime d) (\<lambda>bt.
     Option.bind (in_feeAmount d) (\<lambda>fa.
     Option.bind (in_feeStatus d) (\<lambda>fs.
     Option.bind (in_joinDate d) (\<lambda>jd.
     Option.bind (in_guardianName d) (\<lambda>gn.
     Option.bind (in_guardianPhone d) (\<lambda>gp.
     Option.bind (in_isActive d) (\<lambda>ia.
        Some \<lparr>sid = oid, name = nm, email = em, phone = ph, address = ad, course = co,
              batchTime = bt, feeAmount = fa, feeStatus = fs, joinDate = jd,
              guardianName = gn, guardianPhone = gp, notes_field = in_notes d,
              isActive = ia, lastFeePayment = in_lastFeePayment d,
              nextFeePayment = in_nextFeePayment d, createdAt = now,
              updatedAt = now\<rparr>))))))))))))"

text \<open>The paths of a document that was loaded from the store.\<close>

definition as_input :: "student \<Rightarrow> student_input" where
  "as_input s =
     \<lparr>in_name = Some (name s), in_email = Some (email s), in_phone = Some (phone s),
      in_address = Some (address s), in_course = Some (course s),
      in_batchTime = Some (batchTime s), in_feeAmount = Some (feeAmount s),
      in_feeStatus = Some (feeStatus s), in_joinDate = Some (joinDate s),
      in_guardianName = Some (guardianName s), in_guardianPhone = Some (guardianPhone s),
      in_notes = notes_field s, in_isActive = Some (isActive s),
      in_lastFeePayment = lastFeePayment s, in_nextFeePayment = nextFeePayment s\<rparr>"

text \<open>The unique indexes: \<open>_id\<close> and \<open>email\<close>.\<close>

definition insertOne :: "student \<Rightarrow> store \<Rightarrow> store_error + store" where
  "insertOne s db =
     (if list_ex (\<lambda>t. sid t = sid s \<or> email t = email s) db then Inl DuplicateKey
      else Inr (db @ [s]))"

definition replaceOne :: "student \<Rightarrow> store \<Rightarrow> store" where
  "replaceOne s db = map (\<lambda>t. if sid t = sid s then s else t) db"

text \<open>
  \<open>doc.save()\<close> on a new document \<open>d\<close> (the result of \<open>new Student\<close>): validation, the
  pre-save middleware, the insert.
\<close>

definition save_new :: "string \<Rightarrow> date \<Rightarrow> student_input \<Rightarrow> store \<Rightarrow> store_error + student \<times> store" where
  "save_new oid now d db =
     (if schema_errors d \<noteq> [] then Inl (ValidationError (schema_errors d))
      else case to_student oid now d of
             None \<Rightarrow> Inl (ValidationError (schema_errors d))
           | Some s0 \<Rightarrow>
               (let s = pre_save now True (in_lastFeePayment d \<noteq> None) s0
                in case insertOne s db of
                     Inl err \<Rightarrow> Inl err
                   | Inr db' \<Rightarrow> Inr (s, db')))"

text \<open>
  \<open>doc.save()\<close> on a document \<open>s\<close> that was loaded from the store and then assigned to:
  validation of its paths, the middleware, the write of the modified paths. \<open>modified\<close>
  says whether an assignment changed a path, \<open>lfpModified\<close> whether one changed
  \<open>lastFeePayment\<close>. The timestamp middleware of the schema options runs before the
  schema's own and sets \<open>updatedAt\<close> only when a path is modified by then. A save that
  changes no path leaves the stored document as it is.
\<close>

definition save_existing ::
    "date \<Rightarrow> bool \<Rightarrow> bool \<Rightarrow> student \<Rightarrow> store \<Rightarrow> store_error + student \<times> store" where
  "save_existing now modified lfpModified s db =
     (if schema_errors (as_input s) \<noteq> [] then Inl (ValidationError (schema_errors (as_input s)))
      else (let s1 = (if modified then s\<lparr>updatedAt := now\<rparr> else s);
                s' = pre_save now False lfpModified s1
            in Inr (s', replaceOne s' db)))"

subsection \<open>Instance methods\<close>

text \<open>An assignment modifies a path when the new value differs from the loaded one.\<close>

definition markFeePaid :: "date \<Rightarrow> student \<Rightarrow> store \<Rightarrow> store_error + student \<times> store" where
  "markFeePaid now s db =
     save_existing now (\<not> (feeStatus s = ''paid'' \<and> lastFeePayment s = Some now))
       (lastFeePayment s \<noteq> Some now)
       (s\<lparr>feeStatus := ''paid'', lastFeePayment := Some now\<rparr>) db"

definition markFeeOverdue :: "date \<Rightarrow> student \<Rightarrow> store \<Rightarrow> store_error + student \<times> store" where
  "markFeeOverdue now s db =
     save_existing now (feeStatus s \<noteq> ''overdue'') False (s\<lparr>feeStatus := ''overdue''\<rparr>) db"

definition deactivate :: "date \<Rightarrow> student \<Rightarrow> store \<Rightarrow> store_error + student \<times> store" where
  "deactivate now s db = save_existing now (isActive s) False (s\<lparr>isActive := False\<rparr>) db"

subsection \<open>Lookups and the update in place\<close>

text \<open>An identifier is cast to its canonical (lower-case) form.\<close>

definition findById :: "string \<Rightarrow> store \<Rightarrow> student option" where
  "findById ident db = find (\<lambda>s. sid s = toLowerCase ident) db"

definition findOne_email :: "string \<Rightarrow> store \<Rightarrow> student option" where
  "findOne_email e db = find (\<lambda>s. email s = set_email e) db"

definition upd :: "'a option \<Rightarrow> 'a \<Rightarrow> 'a" where
  "upd v old = (case v of None \<Rightarrow> old | Some x \<Rightarrow> x)"

definition upd_opt :: "'a option \<Rightarrow> 'a option \<Rightarrow> 'a option" where
  "upd_opt v old = (case v of None \<Rightarrow> old | Some x \<Rightarrow> Some x)"

text \<open>\<open>$set\<close> of the paths the update carries; no other path changes but \<open>updatedAt\<close>.\<close>

definition apply_update :: "date \<Rightarrow> student_input \<Rightarrow> student \<Rightarrow> student" where
  "apply_update now u s =
     s\<lparr>name := upd (in_name u) (name s),
       email := upd (in_email u) (email s),
       phone := upd (in_phone u) (phone s),
       address := upd (in_address u) (address s),
       course := upd (in_course u) (course s),
       batchTime := upd (in_batchTime u) (batchTime s),
       feeAmount := upd (in_feeAmount u) (feeAmount s),
       feeStatus := upd (in_feeStatus u) (feeStatus s),
       joinDate := upd (in_joinDate u) (joinDate s),
       guardianName := upd (in_guardianName u) (guardianName s),
       guardianPhone := upd (in_guardianPhone u) (guardianPhone s),
       notes_field := upd_opt (in_notes u) (notes_field s),
       isActive := upd (in_isActive u) (isActive s),
       lastFeePayment := upd_opt (in_lastFeePayment u) (lastFeePayment s),
       nextFeePayment := upd_opt (in_nextFeePayment u) (nextFeePayment s),
       updatedAt := now\<rparr>"

text \<open>
  \<open>Student.findByIdAndUpdate(id, updateData, {new: true, runValidators: true})\<close>: the
  update validators, then one atomic update of the stored document. It is a query
  operation: the \<open>save\<close> middleware of the schema is not part of it.
\<close>

definition findByIdAndUpdate ::
    "date \<Rightarrow> string \<Rightarrow> student_input \<Rightarrow> store \<Rightarrow> store_error + student option \<times> store" where
  "findByIdAndUpdate now ident updateData db =
     (let u = apply_setters updateData
      in if update_errors u \<noteq> [] then Inl (ValidationError (update_errors u))
         else case findById ident db of
                None \<Rightarrow> Inr (None, db)
              | Some s \<Rightarrow>
                  (let s' = apply_update now u s
                   in if list_ex (\<lambda>t. sid t \<noteq> sid s \<and> email t = email s') db
                      then Inl DuplicateKey
                      else Inr (Some s', replaceOne s' db)))"

section \<open>Queries: search, sorting, paging\<close>

subsection \<open>Static query helpers\<close>



text \<open>\<open>{nextFeePayment: {$lt: today}}\<close>: a document without the path does not match.\<close>

definition date_lt :: "date option \<Rightarrow> date \<Rightarrow> bool" where
  "date_lt v today = (case v of None \<Rightarrow> False | Some d \<Rightarrow> d < today)"

definition overdue_match :: "date \<Rightarrow> student \<Rightarrow> bool" where
  "overdue_match today s =
     (isActive s \<and>
      (feeStatus s = ''overdue'' \<or>
       (feeStatus s = ''pending'' \<and> date_lt (nextFeePayment s) today)))"

definition getOverdueStudents :: "date \<Rightarrow> store \<Rightarrow> student list" where
  "getOverdueStudents today db = filter (overdue_match today) db"

subsection \<open>The search helper\<close>

text \<open>
  \<open>{$regex: searchTerm, $options: "i"}\<close>: the term is a pattern, searched for anywhere in
  the value, letters compared without case. A term whose characters are all ordinary or
  the wildcard \<open>.\<close> (any character but a line feed) is compiled here. A term with another
  metacharacter is left to the store's engine, the parameter \<open>engine\<close>, which gives
  \<open>None\<close> for a pattern it rejects; the query then fails.
\<close>

definition metachars :: string where
  "metachars = [CHR 0x5C, CHR ''^'', CHR ''$'', CHR ''|'', CHR ''?'', CHR ''*'', CHR ''+'',
                CHR ''('', CHR '')'', CHR ''['', CHR '']'', CHR ''{'', CHR ''}'']"

definition simple_term :: "string \<Rightarrow> bool" where
  "simple_term t = list_all (\<lambda>c. c \<notin> set metachars) t"

definition char_matches :: "char \<Rightarrow> char \<Rightarrow> bool" where
  "char_matches p c = (if p = CHR ''.'' then c \<noteq> CHR 0x0A else lower_char c = lower_char p)"

fun match_here :: "string \<Rightarrow> string \<Rightarrow> bool" where
  "match_here [] s = True"
| "match_here (p # ps) [] = False"
| "match_here (p # ps) (c # cs) = (char_matches p c \<and> match_here ps cs)"

fun match_anywhere :: "string \<Rightarrow> string \<Rightarrow> bool" where
  "match_anywhere t [] = match_here t []"
| "match_anywhere t (c # cs) = (match_here t (c # cs) \<or> match_anywhere t cs)"

type_synonym regex_engine = "string \<Rightarrow> (string \<Rightarrow> bool) option"

definition regex_i :: "regex_engine \<Rightarrow> string \<Rightarrow> (string \<Rightarrow> bool) option" where
  "regex_i engine t = (if simple_term t then Some (match_anywhere t) else engine t)"

definition search_match :: "(string \<Rightarrow> bool) \<Rightarrow> student \<Rightarrow> bool" where
  "search_match test s =
     (isActive s \<and> (test (name s) \<or> test (email s) \<or> test (course s) \<or> test (phone s)))"

definition searchStudents :: "regex_engine \<Rightarrow> string \<Rightarrow> store \<Rightarrow> store_error + student list" where
  "searchStudents engine searchTerm db =
     (case regex_i engine searchTerm of
        None \<Rightarrow> Inl BadRegex
      | Some test \<Rightarrow> Inr (filter (search_match test) db))"

text \<open>
  The search in the words of the specification: the term occurs in one of the four
  values as a substring, letters compared without case, and the document is active.
  \<open>plain_term\<close>: the term has no metacharacter and no wildcard.
\<close>

definition plain_term :: "string \<Rightarrow> bool" where
  "plain_term t = list_all (\<lambda>c. c \<notin> set metachars \<and> c \<noteq> CHR ''.'') t"

definition ci_includes :: "string \<Rightarrow> string \<Rightarrow> bool" where
  "ci_includes s t = str_includes (toLowerCase s) (toLowerCase t)"

definition substring_match :: "string \<Rightarrow> student \<Rightarrow> bool" where
  "substring_match t s =
     (isActive s \<and> (ci_includes (name s) t \<or> ci_includes (email s) t \<or>
                     ci_includes (course s) t \<or> ci_includes (phone s) t))"

subsection \<open>Sorting\<close>

text \<open>
  The value of a path in the store's comparison order: a missing value first, then
  numbers, text, booleans, dates.
\<close>

datatype sval = SNull | SNum int | SStr string | SBool bool | SDate int

definition opt_val :: "('a \<Rightarrow> sval) \<Rightarrow> 'a option \<Rightarrow> sval" where
  "opt_val f v = (case v of None \<Rightarrow> SNull | Some x \<Rightarrow> f x)"

definition path_value :: "string \<Rightarrow> student \<Rightarrow> sval" where
  "path_value p s =
     (if p = ''_id'' then SStr (sid s)
      else if p = ''name'' then SStr (name s)
      else if p = ''email'' then SStr (email s)
      else if p = ''phone'' then SStr (phone s)
      else if p = ''address'' then SStr (address s)
      else if p = ''course'' then SStr (course s)
      else if p = ''batchTime'' then SStr (batchTime s)
      else if p = ''feeAmount'' then SNum (feeAmount s)
      else if p = ''feeStatus'' then SStr (feeStatus s)
      else if p = ''joinDate'' then SDate (joinDate s)
      else if p = ''guardianName'' then SStr (guardianName s)
      else if p = ''guardianPhone'' then SStr (guardianPhone s)
      else if p = ''notes'' then opt_val SStr (notes_field s)
      else if p = ''isActive'' then SBool (isActive s)
      else if p = ''lastFeePayment'' then opt_val SDate (lastFeePayment s)
      else if p = ''nextFeePayment'' then opt_val SDate (nextFeePayment s)
      else if p = ''createdAt'' then SDate (createdAt s)
      else if p = ''updatedAt'' then SDate (updatedAt s)
      else SNull)"

fun str_le :: "string \<Rightarrow> string \<Rightarrow> bool" where
  "str_le [] t = True"
| "str_le (c # cs) [] = False"
| "str_le (c # cs) (d # ds) = (if c = d then str_le cs ds else code c < code d)"

fun rank :: "sval \<Rightarrow> nat" where
  "rank SNull = 0"
| "rank (SNum n) = 1"
| "rank (SStr t) = 2"
| "rank (SBool b) = 3"
| "rank (SDate d) = 4"

fun same_rank_le :: "sval \<Rightarrow> sval \<Rightarrow> bool" where
  "same_rank_le (SNum a) (SNum b) = (a \<le> b)"
| "same_rank_le (SStr a) (SStr b) = str_le a b"
| "same_rank_le (SBool a) (SBool b) = (b \<or> \<not> a)"
| "same_rank_le (SDate a) (SDate b) = (a \<le> b)"
| "same_rank_le a b = True"

definition sval_le :: "sval \<Rightarrow> sval \<Rightarrow> bool" where
  "sval_le a b = (rank a < rank b \<or> (rank a = rank b \<and> same_rank_le a b))"

text \<open>
  \<open>query.sort({path: direction})\<close>. Documents that compare equal keep the order of the
  collection.
\<close>

fun insert_by :: "('a \<Rightarrow> 'a \<Rightarrow> bool) \<Rightarrow> 'a \<Rightarrow> 'a list \<Rightarrow> 'a list" where
  "insert_by le x [] = [x]"
| "insert_by le x (y # ys) = (if le x y then x # y # ys else y # insert_by le x ys)"

definition sort_by :: "('a \<Rightarrow> 'a \<Rightarrow> bool) \<Rightarrow> 'a list \<Rightarrow> 'a list" where
  "sort_by le xs = foldr (insert_by le) xs []"

definition sort_students :: "string \<Rightarrow> int \<Rightarrow> student list \<Rightarrow> student list" where
  "sort_students p direction xs =
     (if direction = 1
      then sort_by (\<lambda>a b. sval_le (path_value p a) (path_value p b)) xs
      else sort_by (\<lambda>a b. sval_le (path_value p b) (path_value p a)) xs)"

subsection \<open>Paging\<close>

text \<open>
  \<open>query.skip(skip).limit(limit)\<close> with \<open>page\<close> and \<open>limit\<close> as \<open>parseInt\<close> returned them
  (integers). The store rejects a negative skip; a limit of 0 is no limit, a negative
  limit counts as its absolute value.
\<close>

definition skip_limit :: "int \<Rightarrow> int \<Rightarrow> student list \<Rightarrow> store_error + student list" where
  "skip_limit skip limit xs =
     (if skip < 0 then Inl BadSkip
      else if limit = 0 then Inr (drop (nat skip) xs)
      else Inr (take (nat \<bar>limit\<bar>) (drop (nat skip) xs)))"

text \<open>
  \<open>Math.ceil(total / limitNum)\<close>. With \<open>limitNum = 0\<close> the quotient is not a finite
  number, which the JSON response carries as \<open>null\<close>: \<open>None\<close>.
\<close>

definition ceil_div :: "int \<Rightarrow> int \<Rightarrow> int option" where
  "ceil_div cnt limitNum = (if limitNum = 0 then None else Some (- ((- cnt) div limitNum)))"

text \<open>\<open>pageNum < Math.ceil(total / limitNum)\<close>; a comparison with \<open>NaN\<close> (0/0) is false.\<close>

definition page_before :: "int \<Rightarrow> int \<Rightarrow> int \<Rightarrow> bool" where
  "page_before pageNum cnt limitNum =
     (case ceil_div cnt limitNum of
        None \<Rightarrow> 0 < cnt
      | Some n \<Rightarrow> pageNum < n)"

section \<open>The routes\<close>

subsection \<open>Responses\<close>

record pagination =
  currentPage :: int
  totalPages :: "int option"
  totalStudents :: int
  studentsPerPage :: int

record list_pagination = pagination +
  hasNextPage :: bool
  hasPrevPage :: bool

datatype payload =
    NoData
  | Doc student
  | Listing "student list" list_pagination
  | Paged "student list" pagination
  | FieldErrors "verr list"
  | Failure store_error

record response =
  status :: nat
  success :: bool
  message :: string
  payload :: payload

definition ok :: "nat \<Rightarrow> string \<Rightarrow> payload \<Rightarrow> response" where
  "ok st msg d = \<lparr>status = st, success = True, message = msg, payload = d\<rparr>"

definition failed :: "nat \<Rightarrow> string \<Rightarrow> payload \<Rightarrow> response" where
  "failed st msg d = \<lparr>status = st, success = False, message = msg, payload = d\<rparr>"

text \<open>\<open>handleValidationErrors\<close> when the error list is not empty.\<close>

definition validation_failed :: "verr list \<Rightarrow> response" where
  "validation_failed errs = failed 400 ''Validation failed'' (FieldErrors errs)"

definition not_found :: response where
  "not_found = failed 404 ''Student not found'' NoData"

definition email_conflict :: response where
  "email_conflict = failed 409 ''Student with this email already exists'' NoData"

text \<open>The \<open>catch\<close> blocks of the create and update routes: error code 11000 is a conflict.\<close>

definition catch_write :: "string \<Rightarrow> store_error \<Rightarrow> response" where
  "catch_write msg err = (if err = DuplicateKey then email_conflict else failed 500 msg (Failure err))"

definition students_of :: "response \<Rightarrow> student list" where
  "students_of r =
     (case payload r of
        Listing xs pg \<Rightarrow> xs
      | Paged xs pg \<Rightarrow> xs
      | Doc s \<Rightarrow> [s]
      | NoData \<Rightarrow> []
      | FieldErrors es \<Rightarrow> []
      | Failure e \<Rightarrow> [])"

subsection \<open>GET /\<close>

text \<open>
  The query string with \<open>page\<close> and \<open>limit\<close> already read as integers; a parameter the
  request leaves out is \<open>None\<close> and takes the default of the route.
\<close>

record list_query =
  q_page :: "int option"
  q_limit :: "int option"
  q_course :: "string option"
  q_feeStatus :: "string option"
  q_search :: "string option"
  q_sortBy :: "string option"
  q_sortOrder :: "string option"
  q_isActive :: "string option"

definition truthy :: "string option \<Rightarrow> bool" where
  "truthy v = (case v of None \<Rightarrow> False | Some x \<Rightarrow> x \<noteq> [])"

text \<open>The filter object of the route as a predicate on a stored document.\<close>

definition filter_match :: "list_query \<Rightarrow> student \<Rightarrow> bool" where
  "filter_match q s =
     (let isActiveP = upd (q_isActive q) ''true''
      in (if isActiveP \<noteq> ''all'' then isActive s = (isActiveP = ''true'') else True)
       \<and> (if truthy (q_course q) then course s = trim (str_of (q_course q)) else True)
       \<and> (if truthy (q_feeStatus q) then feeStatus s = str_of (q_feeStatus q) else True))"

definition get_students :: "regex_engine \<Rightarrow> list_query \<Rightarrow> store \<Rightarrow> response" where
  "get_students engine q db =
     (let pageNum = upd (q_page q) 1;
          limitNum = upd (q_limit q) 10;
          sortBy = upd (q_sortBy q) ''createdAt'';
          sortOrder = upd (q_sortOrder q) ''desc'';
          query = (if truthy (q_search q) then searchStudents engine (str_of (q_search q)) db
                   else Inr (filter (filter_match q) db));
          skip = (pageNum - 1) * limitNum;
          cnt = int (length (filter (filter_match q) db))
      in case query of
           Inl err \<Rightarrow> failed 500 ''Failed to retrieve students'' (Failure err)
         | Inr found \<Rightarrow>
             (case skip_limit skip limitNum
                     (sort_students sortBy (if sortOrder = ''asc'' then 1 else - 1) found) of
                Inl err \<Rightarrow> failed 500 ''Failed to retrieve students'' (Failure err)
              | Inr students \<Rightarrow>
                  ok 200 ''Students retrieved successfully''
                    (Listing students
                       \<lparr>currentPage = pageNum,
                        totalPages = ceil_div cnt limitNum,
                        totalStudents = cnt,
                        studentsPerPage = limitNum,
                        hasNextPage = page_before pageNum cnt limitNum,
                        hasPrevPage = (pageNum > 1)\<rparr>)))"

subsection \<open>GET /:id\<close>


subsection \<open>POST /\<close>

text \<open>
  The route awaits the store twice: the lookup by email, then the save. \<open>post_check\<close> is
  the part up to the lookup (\<open>Inl\<close>: the response is sent), \<open>post_write\<close> the rest.
  \<open>oid\<close> is the identifier of the new document, \<open>t0\<close> the clock when the document is
  built, \<open>now\<close> the clock when it is saved.
\<close>

definition post_check :: "validator_lib \<Rightarrow> student_input \<Rightarrow> store \<Rightarrow> response + student_input" where
  "post_check lib body db =
     (if validateStudent_errors lib body \<noteq> []
      then Inl (validation_failed (validateStudent_errors lib body))
      else (let studentData = validateStudent_body lib body
            in case findOne_email (str_of (in_email studentData)) db of
                 Some existingStudent \<Rightarrow> Inl email_conflict
               | None \<Rightarrow> Inr studentData))"

definition post_write :: "string \<Rightarrow> date \<Rightarrow> date \<Rightarrow> student_input \<Rightarrow> store \<Rightarrow> response \<times> store" where
  "post_write oid t0 now studentData db =
     (case save_new oid now (new_Student t0 studentData) db of
        Inr (student, db') \<Rightarrow> (ok 201 ''Student created successfully'' (Doc student), db')
      | Inl err \<Rightarrow> (catch_write ''Failed to create student'' err, db))"

definition post_student ::
    "validator_lib \<Rightarrow> string \<Rightarrow> date \<Rightarrow> date \<Rightarrow> student_input \<Rightarrow> store \<Rightarrow> response \<times> store" where
  "post_student lib oid t0 now body db =
     (case post_check lib body db of
        Inl r \<Rightarrow> (r, db)
      | Inr studentData \<Rightarrow> post_write oid t0 now studentData db)"

text \<open>
  The email under which a create stores its document: the body's address as the
  middleware normalises it and the setters of the path then leave it.
\<close>

definition email_key :: "validator_lib \<Rightarrow> student_input \<Rightarrow> string" where
  "email_key lib body = set_email (normalizeEmail lib (str_of (in_email body)))"

subsection \<open>PUT /:id\<close>

definition put_student ::
    "validator_lib \<Rightarrow> date \<Rightarrow> string \<Rightarrow> student_input \<Rightarrow> store \<Rightarrow> response \<times> store" where
  "put_student lib now ident body db =
     (let errs = validateObjectId_errors ident @ validateStudentUpdate_errors lib body;
          updateData = validateStudentUpdate_body lib body
      in if errs \<noteq> [] then (validation_failed errs, db)
         else case findById ident db of
                None \<Rightarrow> (not_found, db)
              | Some student \<Rightarrow>
                  if truthy (in_email updateData)
                     \<and> in_email updateData \<noteq> Some (email student)
                     \<and> findOne_email (str_of (in_email updateData)) db \<noteq> None
                  then (email_conflict, db)
                  else (case findByIdAndUpdate now ident updateData db of
                          Inr (updatedStudent, db') \<Rightarrow>
                            (ok 200 ''Student updated successfully''
                               (case updatedStudent of None \<Rightarrow> NoData | Some s \<Rightarrow> Doc s), db')
                        | Inl err \<Rightarrow> (catch_write ''Failed to update student'' err, db)))"

subsection \<open>PUT /:id/deactivate and PUT /:id/fee-paid\<close>

definition put_deactivate :: "date \<Rightarrow> string \<Rightarrow> store \<Rightarrow> response \<times> store" where
  "put_deactivate now ident db =
     (if validateObjectId_errors ident \<noteq> []
      then (validation_failed (validateObjectId_errors ident), db)
      else case findById ident db of
             None \<Rightarrow> (not_found, db)
           | Some student \<Rightarrow>
               (case deactivate now student db of
                  Inr (student', db') \<Rightarrow>
                    (ok 200 ''Student deactivated successfully'' (Doc student'), db')
                | Inl err \<Rightarrow> (failed 500 ''Failed to deactivate student'' (Failure err), db)))"

definition put_fee_paid :: "date \<Rightarrow> string \<Rightarrow> store \<Rightarrow> response \<times> store" where
  "put_fee_paid now ident db =
     (if validateObjectId_errors ident \<noteq> []
      then (validation_failed (validateObjectId_errors ident), db)
      else case findById ident db of
             None \<Rightarrow> (not_found, db)
           | Some student \<Rightarrow>
               (case markFeePaid now student db of
                  Inr (student', db') \<Rightarrow>
                    (ok 200 ''Student fee marked as paid successfully'' (Doc student'), db')
                | Inl err \<Rightarrow> (failed 500 ''Failed to update fee status'' (Failure err), db)))"

subsection \<open>The paginated listings\<close>

text \<open>
  The four routes \<open>/search/:term\<close>, \<open>/course/:course\<close>, \<open>/fees/status/:status\<close> and
  \<open>/fees/overdue\<close> page a helper's result the same way and count the same helper's
  result.
\<close>

definition paged ::
    "string \<Rightarrow> string \<Rightarrow> string \<Rightarrow> int \<Rightarrow> int option \<Rightarrow> int option \<Rightarrow> store_error + student list \<Rightarrow> response" where
  "paged msg errmsg sortPath direction page limit query =
     (let pageNum = upd page 1;
          limitNum = upd limit 10
      in case query of
           Inl err \<Rightarrow> failed 500 errmsg (Failure err)
         | Inr found \<Rightarrow>
             (case skip_limit ((pageNum - 1) * limitNum) limitNum
                     (sort_students sortPath direction found) of
                Inl err \<Rightarrow> failed 500 errmsg (Failure err)
              | Inr students \<Rightarrow>
                  ok 200 msg
                    (Paged students
                       \<lparr>currentPage = pageNum,
                        totalPages = ceil_div (int (length found)) limitNum,
                        totalStudents = int (length found),
                        studentsPerPage = limitNum\<rparr>)))"

definition get_search :: "regex_engine \<Rightarrow> string \<Rightarrow> int option \<Rightarrow> int option \<Rightarrow> store \<Rightarrow> response" where
  "get_search engine term page limit db =
     paged (''Search results for '' @ [CHR 0x22] @ term @ [CHR 0x22])
       ''Failed to search students'' ''createdAt'' (- 1) page limit
       (searchStudents engine term db)"



definition get_fees_overdue :: "date \<Rightarrow> int option \<Rightarrow> int option \<Rightarrow> store \<Rightarrow> response" where
  "get_fees_overdue today page limit db =
     paged ''Students with overdue fees'' ''Failed to retrieve overdue students''
       ''nextFeePayment'' 1 page limit (Inr (getOverdueStudents today db))"

section \<open>Sequences of requests\<close>

text \<open>
  The requests that write. \<open>FeeOverdue\<close> is the instance method \<open>markFeeOverdue\<close> on the
  document with the given identifier; no route calls it.
\<close>

datatype api_call =
    Create string date date student_input
  | Update date string student_input
  | FeePaid date string
  | Deactivate date string
  | FeeOverdue date string

fun api_step :: "validator_lib \<Rightarrow> store \<Rightarrow> api_call \<Rightarrow> store" where
  "api_step lib db (Create oid t0 now body) = snd (post_student lib oid t0 now body db)"
| "api_step lib db (Update now ident body) = snd (put_student lib now ident body db)"
| "api_step lib db (FeePaid now ident) = snd (put_fee_paid now ident db)"
| "api_step lib db (Deactivate now ident) = snd (put_deactivate now ident db)"
| "api_step lib db (FeeOverdue now ident) =
     (case findById ident db of
        None \<Rightarrow> db
      | Some student \<Rightarrow>
          (case markFeeOverdue now student db of Inl err \<Rightarrow> db | Inr (student', db') \<Rightarrow> db'))"

definition api_run :: "validator_lib \<Rightarrow> store \<Rightarrow> api_call list \<Rightarrow> store" where
  "api_run lib db calls = foldl (api_step lib) db calls"

text \<open>Every stored document with fee status "paid" has a last payment date.\<close>

definition paid_has_payment :: "student \<Rightarrow> bool" where
  "paid_has_payment s = (if feeStatus s = ''paid'' then lastFeePayment s \<noteq> None else True)"

text \<open>The calls that go through the update route.\<close>

fun is_update :: "api_call \<Rightarrow> bool" where
  "is_update (Update now ident body) = True"
| "is_update c = False"

section \<open>An instance of the validation library\<close>

text \<open>
  \<open>isEmail\<close> with the library's default options, on ASCII addresses with an unquoted
  local part (an address with a quoted local part is rejected here): at most 254
  characters; the domain is what follows the last \<open>@\<close>; the local part has at most 64
  characters and is made of non-empty dot-separated atoms; the domain is a fully
  qualified domain name whose last label has two letters or more, or starts with \<open>xn\<close>.
\<close>

definition atom_char :: "char \<Rightarrow> bool" where
  "atom_char c =
     (is_lower c \<or> is_upper c \<or> is_digit c \<or>
      c \<in> set [CHR ''!'', CHR ''#'', CHR ''$'', CHR ''%'', CHR ''&'', CHR 0x27, CHR ''*'',
                CHR ''+'', CHR ''-'', CHR ''/'', CHR ''='', CHR ''?'', CHR ''^'', CHR ''_'',
                CHR 0x60, CHR ''{'', CHR ''|'', CHR ''}'', CHR ''~''])"

definition label_char :: "char \<Rightarrow> bool" where
  "label_char c = (is_lower c \<or> is_upper c \<or> is_digit c \<or> c = CHR ''-'')"

definition is_letter :: "char \<Rightarrow> bool" where
  "is_letter c = (is_lower c \<or> is_upper c)"

definition tld_ok :: "string \<Rightarrow> bool" where
  "tld_ok t =
     ((2 \<le> length t \<and> list_all is_letter t) \<or>
      (4 \<le> length t \<and> toLowerCase (take 2 t) = ''xn'' \<and> list_all label_char (drop 2 t)))"

definition label_ok :: "string \<Rightarrow> bool" where
  "label_ok l =
     (case rev l of
        [] \<Rightarrow> False
      | z # zs \<Rightarrow> length l \<le> 63 \<and> list_all label_char l \<and> hd l \<noteq> CHR ''-'' \<and> z \<noteq> CHR ''-'')"

definition isFQDN :: "string \<Rightarrow> bool" where
  "isFQDN d =
     (case rev (split_on CHR ''.'' d) of
        [] \<Rightarrow> False
      | tld # rest \<Rightarrow> rest \<noteq> [] \<and> tld_ok tld \<and> list_all label_ok (tld # rest))"

fun join_at :: "string list \<Rightarrow> string" where
  "join_at [] = []"
| "join_at [p] = p"
| "join_at (p # q # ps) = p @ CHR ''@'' # join_at (q # ps)"

definition isEmail_default :: "string \<Rightarrow> bool" where
  "isEmail_default str =
     (length str \<le> 254 \<and>
      (case rev (split_on CHR ''@'' str) of
         [] \<Rightarrow> False
       | domain # front \<Rightarrow>
           (let user = join_at (rev front)
            in length user \<le> 64 \<and> length domain \<le> 254 \<and> isFQDN domain \<and>
               list_all (\<lambda>a. a \<noteq> [] \<and> list_all atom_char a) (split_on CHR ''.'' user))))"

text \<open>
  \<open>normalizeEmail\<close> on an address whose domain has no provider-specific rule: the
  address in lower case.
\<close>

definition default_lib :: validator_lib where
  "default_lib = \<lparr>isEmail = isEmail_default, normalizeEmail = toLowerCase\<rparr>"

text \<open>An engine that rejects every pattern it is asked to compile.\<close>

definition no_engine :: regex_engine where
  "no_engine t = None"

section \<open>Sample requests and documents\<close>

definition body_A :: student_input where
  "body_A =
     empty_input\<lparr>in_name := Some ''Asha Rao'', in_email := Some ''x@y.com'',
       in_phone := Some ''+919876543210'', in_address := Some ''12 Lake Road'',
       in_course := Some ''Physics - Class 12'', in_batchTime := Some ''10 AM'',
       in_feeAmount := Some 5000, in_guardianName := Some ''Mr Rao'',
       in_guardianPhone := Some ''919876543211''\<rparr>"

definition oid_A :: string where
  "oid_A = ''65a000000000000000000001''"

definition oid_B :: string where
  "oid_B = ''65a000000000000000000002''"

definition oid_C :: string where
  "oid_C = ''65a000000000000000000003''"

text \<open>Three clock readings: 2024-01-15, 2024-06-10 and 2024-06-11, midnight UTC.\<close>

definition t_jan15 :: date where
  "t_jan15 = 1705276800000"

definition t_jun10 :: date where
  "t_jun10 = 1717977600000"

definition t_jun11 :: date where
  "t_jun11 = 1718064000000"

text \<open>A stored document as a create on 2024-01-15 leaves it.\<close>

definition student_A :: student where
  "student_A =
     \<lparr>sid = oid_A, name = ''Asha Rao'', email = ''x@y.com'', phone = ''+919876543210'',
      address = ''12 Lake Road'', course = ''Physics - Class 12'', batchTime = ''10 AM'',
      feeAmount = 5000, feeStatus = ''pending'', joinDate = t_jan15,
      guardianName = ''Mr Rao'', guardianPhone = ''919876543211'', notes_field = None,
      isActive = True, lastFeePayment = None, nextFeePayment = Some 1707955200000,
      createdAt = t_jan15, updatedAt = t_jan15\<rparr>"

definition student_B :: student where
  "student_B =
     student_A\<lparr>sid := oid_B, name := ''Bob Iyer'', email := ''bob@y.com'',
       feeStatus := ''overdue'', course := ''Physics - Class 11''\<rparr>"

definition student_C :: student where
  "student_C =
     student_A\<lparr>sid := oid_C, name := ''Chitra Das'', email := ''chitra@y.com'',
       feeStatus := ''paid'', lastFeePayment := Some t_jun10,
       nextFeePayment := Some 1720569600000\<rparr>"

text \<open>The query string of a request to GET / that sets no parameter.\<close>

definition query_none :: list_query where
  "query_none = \<lparr>q_page = None, q_limit = None, q_course = None, q_feeStatus = None,
                  q_search = None, q_sortBy = None, q_sortOrder = None, q_isActive = None\<rparr>"

text \<open>A second create with the address of \<open>body_A\<close> in another case.\<close>

definition body_B :: student_input where
  "body_B = body_A\<lparr>in_name := Some ''Bina Rao'', in_email := Some ''X@Y.com''\<rparr>"

text \<open>An address whose last domain label has four letters.\<close>

definition body_info :: student_input where
  "body_info = body_A\<lparr>in_email := Some ''a@b.info''\<rparr>"


text \<open>
  A list request with a search term and with filters that no sample document matches.
\<close>

definition q_phys :: list_query where
  "q_phys = query_none\<lparr>q_search := Some ''PHYS'', q_course := Some ''Chemistry - Class 9'',
               q_feeStatus := Some ''paid'', q_isActive := Some ''false''\<rparr>"

text \<open>The same request with a term that has a wildcard, and one with an open parenthesis.\<close>

definition q_dot :: list_query where
  "q_dot = query_none\<lparr>q_search := Some ''b.b'', q_course := Some ''Chemistry - Class 9'',
              q_feeStatus := Some ''paid'', q_isActive := Some ''false''\<rparr>"

definition q_paren :: list_query where
  "q_paren = query_none\<lparr>q_search := Some ''(''\<rparr>"

text \<open>
  An engine that compiles the patterns made of \<open>^\<close> and a term without metacharacters
  (the term at the start of the value, letters compared without case) and rejects every
  other pattern; and a request with such a pattern.
\<close>

definition caret_engine :: regex_engine where
  "caret_engine t =
     (case t of
        [] \<Rightarrow> None
      | c # cs \<Rightarrow> if c = CHR ''^'' \<and> plain_term cs then Some (match_here cs) else None)"

definition q_caret :: list_query where
  "q_caret = query_none\<lparr>q_search := Some ''^bob'', q_course := Some ''Chemistry - Class 9'',
                q_feeStatus := Some ''paid'', q_isActive := Some ''false''\<rparr>"

section \<open>The pattern matcher\<close>

lemma nullable_iff: "nullable r \<longleftrightarrow> [] \<in> lang r"
  by (induction r) (auto intro: star_empty)

lemma lang_alt: "lang (alt r s) = lang r \<union> lang s"
  by (induction r s rule: alt.induct) auto

lemma lang_seq: "lang (seq r s) = lang (Seq r s)"
  by (induction r s rule: seq.induct) auto

lemma star_cons_split:
  assumes "x \<in> star A" and "x = c # w"
  shows "\<exists>u v. c # u \<in> A \<and> v \<in> star A \<and> w = u @ v"
  using assms
proof (induction arbitrary: w rule: star.induct)
  case star_empty
  then show ?case by simp
next
  case (star_step u v)
  show ?case
  proof (cases u)
    case Nil
    then show ?thesis using star_step by simp
  next
    case (Cons d u')
    then have "d = c" "w = u' @ v" using star_step.prems by simp_all
    then show ?thesis using star_step.hyps(1,2) Cons by blast
  qed
qed

lemma star_cons_iff:
  "c # w \<in> star A \<longleftrightarrow> (\<exists>u v. c # u \<in> A \<and> v \<in> star A \<and> w = u @ v)"
proof
  assume "c # w \<in> star A"
  then show "\<exists>u v. c # u \<in> A \<and> v \<in> star A \<and> w = u @ v" by (rule star_cons_split) simp
next
  assume "\<exists>u v. c # u \<in> A \<and> v \<in> star A \<and> w = u @ v"
  then obtain u v where "c # u \<in> A" "v \<in> star A" "w = u @ v" by blast
  then show "c # w \<in> star A" using star_step[of "c # u" A v] by simp
qed

lemma lang_deriv: "w \<in> lang (deriv c r) \<longleftrightarrow> c # w \<in> lang r"
proof (induction r arbitrary: w)
  case (Seq r s)
  have "c # w \<in> lang (Seq r s) \<longleftrightarrow>
          ([] \<in> lang r \<and> c # w \<in> lang s) \<or> (\<exists>u v. c # u \<in> lang r \<and> v \<in> lang s \<and> w = u @ v)"
    by (auto simp: Cons_eq_append_conv)
  then show ?case using Seq by (auto simp: lang_alt lang_seq nullable_iff)
next
  case (Star r)
  then show ?case by (auto simp: lang_seq star_cons_iff)
qed (auto simp: lang_alt)

lemma rmatch_iff: "rmatch r w \<longleftrightarrow> w \<in> lang r"
  by (induction w arbitrary: r) (simp_all add: nullable_iff lang_deriv)

lemma ends_in_label_append: "ends_in_label w \<Longrightarrow> ends_in_label (a @ w)"
  unfolding ends_in_label_def by (metis append.assoc)

lemma star_ends_in_label:
  assumes "v \<in> star A" and "\<And>x. x \<in> A \<Longrightarrow> ends_in_label x"
  shows "v = [] \<or> ends_in_label v"
  using assms(1)
proof (induction rule: star.induct)
  case star_empty
  then show ?case by simp
next
  case (star_step u v)
  then show ?case using assms(2)[of u] ends_in_label_append[of v u] by auto
qed

lemma lang_label_rx: "x \<in> lang label_rx \<Longrightarrow> ends_in_label x"
proof -
  assume "x \<in> lang label_rx"
  then obtain t where "x = CHR ''.'' # t" "length t = 2 \<or> length t = 3" "list_all is_word t"
    unfolding label_rx_def Opt_def Lit_def by auto
  then have "x = [] @ CHR ''.'' # t \<and> (length t = 2 \<or> length t = 3) \<and> list_all is_word t"
    by simp
  then show "ends_in_label x" unfolding ends_in_label_def by blast
qed

lemma lang_plus_label: "x \<in> lang (Plus label_rx) \<Longrightarrow> ends_in_label x"
proof -
  assume "x \<in> lang (Plus label_rx)"
  then obtain u v where x: "x = u @ v" and u: "u \<in> lang label_rx" and v: "v \<in> star (lang label_rx)"
    by (auto simp: Plus_def)
  have "v = [] \<or> ends_in_label v" using star_ends_in_label[OF v] lang_label_rx by blast
  then show "ends_in_label x"
    using x lang_label_rx[OF u] ends_in_label_append[of v u] by auto
qed

lemma email_match_ends_in_label: "email_match w \<Longrightarrow> ends_in_label w"
proof -
  assume "email_match w"
  then have "w \<in> lang email_rx" by (simp add: email_match_def rmatch_iff)
  then obtain a b c d where "w = a @ b @ c @ d" "d \<in> lang (Plus label_rx)"
    unfolding email_rx_def by fastforce
  then show "ends_in_label w"
    using lang_plus_label[of d] ends_in_label_append[of d "a @ b @ c"] by simp
qed

lemma last_label_unique:
  assumes "CHR ''.'' \<notin> set l" and "CHR ''.'' \<notin> set t" and "p @ CHR ''.'' # l = u @ CHR ''.'' # t"
  shows "l = t"
proof -
  have "takeWhile (\<lambda>c. c \<noteq> CHR ''.'') (rev (p @ CHR ''.'' # l)) = rev l"
    using assms(1) by (auto simp: takeWhile_tail)
  moreover have "takeWhile (\<lambda>c. c \<noteq> CHR ''.'') (rev (u @ CHR ''.'' # t)) = rev t"
    using assms(2) by (auto simp: takeWhile_tail)
  ultimately have "rev l = rev t" using assms(3) by simp
  then show ?thesis by simp
qed

lemma is_word_no_dot: "list_all is_word t \<Longrightarrow> CHR ''.'' \<notin> set t"
  by (induction t) (auto simp: is_word_def is_upper_def is_lower_def is_digit_def code_def)

text \<open>
  The schema's pattern rejects every address whose last label, the part after the last
  dot, has more than three characters.
\<close>

lemma long_last_label_rejected:
  assumes "CHR ''.'' \<notin> set l" and "3 < length l"
  shows "\<not> email_match (p @ CHR ''.'' # l)"
proof
  assume "email_match (p @ CHR ''.'' # l)"
  then obtain u t where e: "p @ CHR ''.'' # l = u @ CHR ''.'' # t"
      and n: "length t = 2 \<or> length t = 3" and w: "list_all is_word t"
    using email_match_ends_in_label unfolding ends_in_label_def by blast
  have "l = t" using last_label_unique[OF assms(1) is_word_no_dot[OF w] e] .
  then show False using n assms(2) by auto
qed

section \<open>The sample dates\<close>

text \<open>
  The clock readings of the samples as calendar dates, and \<open>addMonth\<close> on them; at the
  end of January the day carries into March, as \<open>setMonth\<close> does.
\<close>

lemma sample_dates:
  "t_jan15 = utc 2024 1 15 \<and> t_jun10 = utc 2024 6 10 \<and> t_jun11 = utc 2024 6 11 \<and>
   addMonth t_jan15 = utc 2024 2 15 \<and> addMonth t_jun10 = utc 2024 7 10 \<and>
   addMonth t_jun11 = utc 2024 7 11"
  by code_simp

lemma sample_dates_valid:
  "valid_time t_jan15 \<and> valid_time t_jun10 \<and> valid_time t_jun11 \<and>
   valid_time (addMonth t_jan15) \<and> valid_time (addMonth t_jun10) \<and>
   valid_time (addMonth t_jun11)"
  by code_simp

lemma addMonth_end_of_january:
  "addMonth (utc 2024 1 31) = utc 2024 3 2 \<and> addMonth (utc 2023 1 31) = utc 2023 3 3 \<and>
   addMonth (utc 2024 12 15) = utc 2025 1 15"
  by code_simp

section \<open>Properties of sorting and paging\<close>

lemma set_insert_by: "set (insert_by le x xs) = insert x (set xs)"
  by (induction xs) auto

lemma set_sort_by: "set (sort_by le xs) = set xs"
  by (induction xs) (auto simp: sort_by_def set_insert_by)

lemma length_insert_by: "length (insert_by le x xs) = Suc (length xs)"
  by (induction xs) auto

lemma length_sort_by: "length (sort_by le xs) = length xs"
  by (induction xs) (auto simp: sort_by_def length_insert_by)

lemma set_sort_students: "set (sort_students p direction xs) = set xs"
  by (simp add: sort_students_def set_sort_by)

lemma length_sort_students: "length (sort_students p direction xs) = length xs"
  by (simp add: sort_students_def length_sort_by)

lemma page_index:
  assumes "0 < n" and "i < length ys"
  shows "ys ! i \<in> set (take n (drop ((i div n) * n) ys))"
proof -
  define k where "k = (i div n) * n"
  define r where "r = i mod n"
  have a: "k + r = i" by (simp add: k_def r_def)
  have b: "r < n" using assms(1) by (simp add: r_def)
  have c: "k + r < length ys" using assms(2) a by simp
  have d: "r < length (drop k ys)" using c by simp
  have "take n (drop k ys) ! r = ys ! (k + r)"
    using b c by simp
  moreover have "r < length (take n (drop k ys))"
    using b d by simp
  ultimately have "ys ! (k + r) \<in> set (take n (drop k ys))" by (metis nth_mem)
  then show ?thesis using a by (simp add: k_def)
qed

lemma pages_cover:
  assumes "1 \<le> (L::int)"
  shows "(\<Union>p\<in>{1..}. set (take (nat L) (drop (nat ((p - 1) * L)) ys))) = set ys"
proof
  show "(\<Union>p\<in>{1..}. set (take (nat L) (drop (nat ((p - 1) * L)) ys))) \<subseteq> set ys"
    by (auto dest: in_set_takeD in_set_dropD)
next
  show "set ys \<subseteq> (\<Union>p\<in>{1..}. set (take (nat L) (drop (nat ((p - 1) * L)) ys)))"
  proof
    fix x assume "x \<in> set ys"
    then obtain i where i: "i < length ys" "ys ! i = x" by (auto simp: in_set_conv_nth)
    define n where "n = nat L"
    have n: "0 < n" using assms by (simp add: n_def)
    define p where "p = int (i div n) + 1"
    have p1: "p \<in> {1..}" by (simp add: p_def)
    have "nat ((p - 1) * L) = (i div n) * n"
      using assms by (simp add: p_def n_def nat_mult_distrib)
    then have "x \<in> set (take (nat L) (drop (nat ((p - 1) * L)) ys))"
      using page_index[OF n i(1)] i(2) by (simp add: n_def)
    then show "x \<in> (\<Union>p\<in>{1..}. set (take (nat L) (drop (nat ((p - 1) * L)) ys)))"
      using p1 by blast
  qed
qed

lemma paged_students:
  assumes "1 \<le> p" and "1 \<le> upd limit 10"
  shows "students_of (paged msg em sp dir (Some p) limit (Inr xs))
         = take (nat (upd limit 10)) (drop (nat ((p - 1) * upd limit 10)) (sort_students sp dir xs))"
proof -
  have "0 \<le> (p - 1) * upd limit 10" using assms by simp
  then have "\<not> (p - 1) * upd limit 10 < 0" by simp
  moreover have "upd limit 10 \<noteq> 0" "\<bar>upd limit 10\<bar> = upd limit 10" using assms(2) by simp_all
  ultimately show ?thesis
    by (simp add: paged_def skip_limit_def students_of_def ok_def Let_def upd_def)
qed

lemma skip_limit_page:
  assumes "1 \<le> p" and "1 \<le> l"
  shows "skip_limit ((p - 1) * l) l xs = Inr (take (nat l) (drop (nat ((p - 1) * l)) xs))"
proof -
  have "0 \<le> (p - 1) * l" using assms by simp
  then have "\<not> (p - 1) * l < 0" by simp
  moreover have "l \<noteq> 0" "\<bar>l\<bar> = l" using assms(2) by simp_all
  ultimately show ?thesis by (simp add: skip_limit_def)
qed





section \<open>The overdue listing\<close>

lemma overdue_match_iff:
  "overdue_match today s \<longleftrightarrow>
     isActive s \<and> (feeStatus s = ''overdue'' \<or>
       (feeStatus s = ''pending'' \<and> (\<exists>d. nextFeePayment s = Some d \<and> d < today)))"
  by (auto simp: overdue_match_def date_lt_def split: option.splits)

text \<open>
  C6. The overdue listing, all its pages taken together, returns exactly the stored
  documents that are active and either have fee status "overdue" or have fee status
  "pending" and a next payment date strictly before the current time; no other document
  is on any page. The page size is the request's \<open>limit\<close> (10 when left out), at least 1.
\<close>

theorem overdue_listing_exact:
  assumes "1 \<le> upd limit 10"
  shows "(\<Union>page\<in>{1..}. set (students_of (get_fees_overdue today (Some page) limit db)))
         = {s \<in> set db. isActive s \<and> (feeStatus s = ''overdue'' \<or>
              (feeStatus s = ''pending'' \<and> (\<exists>d. nextFeePayment s = Some d \<and> d < today)))}"
proof -
  have "(\<Union>page\<in>{1..}. set (students_of (get_fees_overdue today (Some page) limit db)))
        = (\<Union>page\<in>{1..}. set (take (nat (upd limit 10)) (drop (nat ((page - 1) * upd limit 10))
             (sort_students ''nextFeePayment'' 1 (getOverdueStudents today db)))))"
    using assms by (simp add: get_fees_overdue_def paged_students)
  also have "\<dots> = set (sort_students ''nextFeePayment'' 1 (getOverdueStudents today db))"
    by (rule pages_cover[OF assms])
  also have "\<dots> = {s \<in> set db. overdue_match today s}"
    by (simp add: set_sort_students getOverdueStudents_def)
  finally show ?thesis by (simp add: overdue_match_iff)
qed


theorem overdue_listing_exact_witness:
  "1 \<le> upd (Some 1) (10::int) \<and>
   (\<Union>page\<in>{1..}. set (students_of
      (get_fees_overdue t_jun10 (Some page) (Some 1) [student_A, student_B, student_C])))
   = {student_A, student_B}"
proof -
  have h: "1 \<le> upd (Some 1) (10::int)" by (simp add: upd_def)
  have a: "overdue_match t_jun10 student_A" by code_simp
  have b: "overdue_match t_jun10 student_B" by code_simp
  have c: "\<not> overdue_match t_jun10 student_C" by code_simp
  have "{s \<in> set [student_A, student_B, student_C]. overdue_match t_jun10 s}
        = {student_A, student_B}"
    using a b c by auto
  then show ?thesis
    using h overdue_listing_exact[OF h, of t_jun10 "[student_A, student_B, student_C]"]
    by (simp add: overdue_match_iff)
qed

section \<open>The derivation hook and the write paths\<close>

lemma save_existing_result:
  assumes "save_existing now modified m s db = Inr (s', db')"
  shows "\<exists>s1. (s1 = s \<or> s1 = s\<lparr>updatedAt := now\<rparr>) \<and> s' = pre_save now False m s1
              \<and> db' = replaceOne s' db"
  using assms by (auto simp: save_existing_def Let_def split: if_splits)

lemma to_student_fields:
  assumes "to_student oid now d = Some s"
  shows "in_joinDate d = Some (joinDate s) \<and> in_feeStatus d = Some (feeStatus s)
       \<and> lastFeePayment s = in_lastFeePayment d \<and> nextFeePayment s = in_nextFeePayment d"
  using assms by (auto simp: to_student_def Option.bind_eq_Some_conv)

lemma new_Student_fields:
  "in_joinDate (new_Student t0 (validateStudent_body lib body)) = Some (upd (in_joinDate body) t0)
   \<and> in_feeStatus (new_Student t0 (validateStudent_body lib body))
       = Some (upd (in_feeStatus body) ''pending'')
   \<and> in_lastFeePayment (new_Student t0 (validateStudent_body lib body)) = in_lastFeePayment body"
  by (simp add: new_Student_def apply_setters_def validateStudent_body_def Let_def
      default_to_def upd_def split: option.splits)

text \<open>
  What a successful create stores: the next payment date is one month after the last
  payment date of the input when the input has one, else one month after the join date;
  the last payment date is the input's, or the time of the save when the input has none
  and the fee status is "paid".
\<close>

lemma create_derived_fields:
  assumes "post_student lib oid t0 now body db = (r, db')" and "status r = 201"
  shows "\<exists>s. db' = db @ [s] \<and> payload r = Doc s
           \<and> joinDate s = upd (in_joinDate body) t0
           \<and> nextFeePayment s = Some (addMonth (upd (in_lastFeePayment body) (joinDate s)))
           \<and> lastFeePayment s =
               (case in_lastFeePayment body of
                  Some d \<Rightarrow> Some d
                | None \<Rightarrow> if upd (in_feeStatus body) ''pending'' = ''paid'' then Some now else None)"
proof -
  let ?d = "new_Student t0 (validateStudent_body lib body)"
  have v: "validateStudent_errors lib body = []"
    using assms by (auto simp: post_student_def post_check_def validation_failed_def failed_def
        split: if_splits)
  have "post_check lib body db = Inr (validateStudent_body lib body)"
    using assms v by (auto simp: post_student_def post_check_def Let_def email_conflict_def
        failed_def split: option.splits)
  then have w: "post_write oid t0 now (validateStudent_body lib body) db = (r, db')"
    using assms(1) by (simp add: post_student_def)
  have nc: "\<And>e. status (catch_write ''Failed to create student'' e) \<noteq> 201"
    by (simp add: catch_write_def email_conflict_def failed_def)
  obtain s where s: "save_new oid now ?d db = Inr (s, db')"
      and r: "r = ok 201 ''Student created successfully'' (Doc s)"
    using w assms(2) nc by (auto simp: post_write_def split: sum.splits)
  from s obtain s0 where s0: "to_student oid now ?d = Some s0"
    by (auto simp: save_new_def split: if_splits option.splits)
  from s s0 have e: "s = pre_save now True (in_lastFeePayment ?d \<noteq> None) s0" "db' = db @ [s]"
    by (auto simp: save_new_def insertOne_def Let_def split: if_splits sum.splits)
  have f: "joinDate s0 = upd (in_joinDate body) t0" "feeStatus s0 = upd (in_feeStatus body) ''pending''"
    "lastFeePayment s0 = in_lastFeePayment body"
    using to_student_fields[OF s0] new_Student_fields[of t0 lib body] by simp_all
  have "joinDate s = upd (in_joinDate body) t0"
    "nextFeePayment s = Some (addMonth (upd (in_lastFeePayment body) (joinDate s)))"
    "lastFeePayment s =
               (case in_lastFeePayment body of
                  Some d \<Rightarrow> Some d
                | None \<Rightarrow> if upd (in_feeStatus body) ''pending'' = ''paid'' then Some now else None)"
    using f by (auto simp: e(1) pre_save_def Let_def upd_def split: option.splits)
  then show ?thesis using e(2) r by (simp add: ok_def)
qed

text \<open>
  C2. A create whose input sets the fee status to "paid" and supplies a join date but no
  last payment date: the stored document has the last payment date stamped with the
  time of the save, and its next payment date is one month after the join date, which
  is not one month after the stored last payment date. (Created on 2024-06-10 with join
  date 2024-01-15: last payment 2024-06-10, next payment 2024-02-15.) The middleware
  computes the next payment date before it stamps the last payment date.
\<close>

theorem create_paid_next_payment_from_join_date:
  "(case post_student default_lib oid_A t_jan15 t_jun10
           (body_A\<lparr>in_feeStatus := Some ''paid'', in_joinDate := Some t_jan15\<rparr>) [] of
      (r, db') \<Rightarrow>
        status r = 201 \<and>
        map joinDate db' = [t_jan15] \<and>
        map lastFeePayment db' = [Some t_jun10] \<and>
        map nextFeePayment db' = [Some (addMonth t_jan15)] \<and>
        addMonth t_jan15 \<noteq> addMonth t_jun10)"
  by code_simp

text \<open>
  What a successful update stores: each of the three paths is the update's value when
  the update carries one and the stored value otherwise. Nothing is derived.
\<close>

lemma update_derives_nothing:
  assumes "put_student lib now ident body db = (r, db')" and "status r = 200"
  shows "\<exists>s0 s. findById ident db = Some s0 \<and> payload r = Doc s \<and> db' = replaceOne s db
           \<and> feeStatus s = upd (in_feeStatus body) (feeStatus s0)
           \<and> lastFeePayment s = upd_opt (in_lastFeePayment body) (lastFeePayment s0)
           \<and> nextFeePayment s = upd_opt (in_nextFeePayment body) (nextFeePayment s0)"
proof -
  let ?u = "validateStudentUpdate_body lib body"
  have v: "validateObjectId_errors ident @ validateStudentUpdate_errors lib body = []"
    using assms by (auto simp: put_student_def Let_def validation_failed_def failed_def
        split: if_splits)
  obtain s0 where s0: "findById ident db = Some s0"
    using assms v by (auto simp: put_student_def Let_def not_found_def failed_def
        split: option.splits)
  have nc: "\<And>e. status (catch_write ''Failed to update student'' e) \<noteq> 200"
    by (simp add: catch_write_def email_conflict_def failed_def)
  obtain res where res: "findByIdAndUpdate now ident ?u db = Inr (res, db')"
      and r: "r = ok 200 ''Student updated successfully''
                    (case res of None \<Rightarrow> NoData | Some s \<Rightarrow> Doc s)"
    using assms v s0 nc
    by (auto simp: put_student_def Let_def email_conflict_def failed_def
        split: if_splits sum.splits)
  let ?s = "apply_update now (apply_setters ?u) s0"
  have "res = Some ?s" "db' = replaceOne ?s db"
    using res s0 by (auto simp: findByIdAndUpdate_def Let_def split: if_splits)
  moreover have "feeStatus ?s = upd (in_feeStatus body) (feeStatus s0)"
    "lastFeePayment ?s = upd_opt (in_lastFeePayment body) (lastFeePayment s0)"
    "nextFeePayment ?s = upd_opt (in_nextFeePayment body) (nextFeePayment s0)"
    by (simp_all add: apply_update_def apply_setters_def validateStudentUpdate_body_def)
  ultimately show ?thesis using s0 r by (simp add: ok_def)
qed

text \<open>What a successful fee-paid request stores: the middleware derives the next payment date.\<close>

lemma fee_paid_derives:
  assumes "put_fee_paid now ident db = (r, db')" and "status r = 200"
  shows "\<exists>s0 s. findById ident db = Some s0 \<and> payload r = Doc s \<and> db' = replaceOne s db
           \<and> feeStatus s = ''paid'' \<and> lastFeePayment s = Some now
           \<and> nextFeePayment s =
               (if lastFeePayment s0 = Some now then nextFeePayment s0 else Some (addMonth now))"
proof -
  have v: "validateObjectId_errors ident = []"
    using assms by (auto simp: put_fee_paid_def validation_failed_def failed_def split: if_splits)
  obtain s0 where s0: "findById ident db = Some s0"
    using assms v by (auto simp: put_fee_paid_def not_found_def failed_def split: option.splits)
  obtain s where s: "markFeePaid now s0 db = Inr (s, db')"
      and r: "r = ok 200 ''Student fee marked as paid successfully'' (Doc s)"
    using assms v s0 by (auto simp: put_fee_paid_def failed_def split: sum.splits)
  obtain s1 where s1: "s1 = s0\<lparr>feeStatus := ''paid'', lastFeePayment := Some now\<rparr>
                         \<or> s1 = s0\<lparr>feeStatus := ''paid'', lastFeePayment := Some now,
                                    updatedAt := now\<rparr>"
      and e: "s = pre_save now False (lastFeePayment s0 \<noteq> Some now) s1" "db' = replaceOne s db"
    using save_existing_result[OF s[unfolded markFeePaid_def]] by blast
  have "feeStatus s = ''paid''" "lastFeePayment s = Some now"
    "nextFeePayment s =
               (if lastFeePayment s0 = Some now then nextFeePayment s0 else Some (addMonth now))"
    using s1 by (auto simp: e(1) pre_save_def Let_def)
  then show ?thesis using s0 r e(2) by (simp add: ok_def)
qed

text \<open>
  C1. The update route writes with \<open>findByIdAndUpdate\<close>, which does not run the
  pre-save middleware. An update that changes the last payment date leaves the stored
  next payment date as it was (one month after the join date, not one month after the
  new last payment date); an update that sets the fee status to "paid" on a document
  without a last payment date stores it without one. The fee-paid route, which saves
  the document, does both.
\<close>

theorem update_bypasses_pre_save:
  "(case put_student default_lib t_jun10 oid_A
           (empty_input\<lparr>in_lastFeePayment := Some t_jun11\<rparr>) [student_A] of
      (r, db') \<Rightarrow>
        status r = 200 \<and>
        map lastFeePayment db' = [Some t_jun11] \<and>
        map nextFeePayment db' = [Some (addMonth t_jan15)] \<and>
        addMonth t_jan15 \<noteq> addMonth t_jun11) \<and>
   (case put_student default_lib t_jun10 oid_A
           (empty_input\<lparr>in_feeStatus := Some ''paid''\<rparr>) [student_A] of
      (r, db') \<Rightarrow>
        status r = 200 \<and>
        map feeStatus db' = [''paid''] \<and>
        map lastFeePayment db' = [None]) \<and>
   (case put_fee_paid t_jun10 oid_A [student_A] of
      (r, db') \<Rightarrow>
        status r = 200 \<and>
        map feeStatus db' = [''paid''] \<and>
        map lastFeePayment db' = [Some t_jun10] \<and>
        map nextFeePayment db' = [Some (addMonth t_jun10)])"
  by code_simp

text \<open>
  Every path that saves a document keeps the invariant "a paid document has a last
  payment date": the middleware establishes it for the document it saves.
\<close>

lemma pre_save_paid_has_payment: "paid_has_payment (pre_save now isNew m s)"
  by (simp add: pre_save_def paid_has_payment_def Let_def)

lemma save_new_keeps:
  assumes "save_new oid now d db = Inr (s, db')" and "list_all paid_has_payment db"
  shows "list_all paid_has_payment db'"
proof -
  from assms(1) obtain s0 where s0: "to_student oid now d = Some s0"
    by (auto simp: save_new_def split: if_splits option.splits)
  from assms(1) s0 have "db' = db @ [pre_save now True (in_lastFeePayment d \<noteq> None) s0]"
    by (auto simp: save_new_def insertOne_def Let_def split: if_splits sum.splits)
  then show ?thesis using assms(2) by (simp add: pre_save_paid_has_payment)
qed

lemma save_existing_keeps:
  assumes "save_existing now md m s db = Inr (s', db')" and "list_all paid_has_payment db"
  shows "list_all paid_has_payment db'"
proof -
  obtain s1 where "s' = pre_save now False m s1" "db' = replaceOne s' db"
    using save_existing_result[OF assms(1)] by blast
  then show ?thesis using assms(2)
    by (auto simp: replaceOne_def list_all_iff pre_save_paid_has_payment)
qed

lemma post_student_keeps:
  assumes "list_all paid_has_payment db"
  shows "list_all paid_has_payment (snd (post_student lib oid t0 now body db))"
proof (cases "post_check lib body db")
  case (Inl r)
  then show ?thesis using assms by (simp add: post_student_def)
next
  case (Inr d)
  show ?thesis
  proof (cases "save_new oid now (new_Student t0 d) db")
    case (Inl e)
    then show ?thesis using assms Inr by (simp add: post_student_def post_write_def)
  next
    case r: (Inr p)
    obtain s db' where p: "p = (s, db')" by (cases p)
    have "list_all paid_has_payment db'" using save_new_keeps r p assms by blast
    then show ?thesis using Inr r p by (simp add: post_student_def post_write_def)
  qed
qed

lemma put_fee_paid_keeps:
  assumes "list_all paid_has_payment db"
  shows "list_all paid_has_payment (snd (put_fee_paid now ident db))"
proof (cases "findById ident db")
  case None
  then show ?thesis using assms by (simp add: put_fee_paid_def)
next
  case (Some s0)
  show ?thesis
  proof (cases "markFeePaid now s0 db")
    case (Inl e)
    then show ?thesis using assms Some by (simp add: put_fee_paid_def)
  next
    case r: (Inr p)
    obtain s db' where p: "p = (s, db')" by (cases p)
    have "list_all paid_has_payment db'"
      using save_existing_keeps r p assms unfolding markFeePaid_def by blast
    then show ?thesis using assms Some r p by (simp add: put_fee_paid_def)
  qed
qed

lemma put_deactivate_keeps:
  assumes "list_all paid_has_payment db"
  shows "list_all paid_has_payment (snd (put_deactivate now ident db))"
proof (cases "findById ident db")
  case None
  then show ?thesis using assms by (simp add: put_deactivate_def)
next
  case (Some s0)
  show ?thesis
  proof (cases "deactivate now s0 db")
    case (Inl e)
    then show ?thesis using assms Some by (simp add: put_deactivate_def)
  next
    case r: (Inr p)
    obtain s db' where p: "p = (s, db')" by (cases p)
    have "list_all paid_has_payment db'"
      using save_existing_keeps r p assms unfolding deactivate_def by blast
    then show ?thesis using assms Some r p by (simp add: put_deactivate_def)
  qed
qed

lemma fee_overdue_keeps:
  assumes "list_all paid_has_payment db"
  shows "list_all paid_has_payment (api_step lib db (FeeOverdue now ident))"
proof (cases "findById ident db")
  case None
  then show ?thesis using assms by simp
next
  case (Some s0)
  show ?thesis
  proof (cases "markFeeOverdue now s0 db")
    case (Inl e)
    then show ?thesis using assms Some by simp
  next
    case r: (Inr p)
    obtain s db' where p: "p = (s, db')" by (cases p)
    have "list_all paid_has_payment db'"
      using save_existing_keeps r p assms unfolding markFeeOverdue_def by blast
    then show ?thesis using assms Some r p by simp
  qed
qed

lemma api_step_keeps:
  assumes "list_all paid_has_payment db" and "\<not> is_update c"
  shows "list_all paid_has_payment (api_step lib db c)"
  using assms
  by (cases c) (simp_all add: post_student_keeps put_fee_paid_keeps put_deactivate_keeps
      fee_overdue_keeps del: api_step.simps(5))

lemma save_paths_keep_paid_has_payment:
  assumes "list_all paid_has_payment db" and "list_all (\<lambda>c. \<not> is_update c) calls"
  shows "list_all paid_has_payment (api_run lib db calls)"
  using assms unfolding api_run_def
  by (induction calls arbitrary: db) (simp_all add: api_step_keeps)

text \<open>
  C3. From the empty store, a create followed by an update that sets the fee status to
  "paid" leaves a stored document with fee status "paid" and no last payment date.
\<close>

theorem paid_without_payment_after_update:
  "list_all paid_has_payment [] \<and>
   \<not> list_all paid_has_payment
       (api_run default_lib []
          [Create oid_A t_jan15 t_jan15 body_A,
           Update t_jun10 oid_A (empty_input\<lparr>in_feeStatus := Some ''paid''\<rparr>)]) \<and>
   map feeStatus
       (api_run default_lib []
          [Create oid_A t_jan15 t_jan15 body_A,
           Update t_jun10 oid_A (empty_input\<lparr>in_feeStatus := Some ''paid''\<rparr>)]) = [''paid''] \<and>
   map lastFeePayment
       (api_run default_lib []
          [Create oid_A t_jan15 t_jan15 body_A,
           Update t_jun10 oid_A (empty_input\<lparr>in_feeStatus := Some ''paid''\<rparr>)]) = [None]"
  by code_simp

section \<open>The list route\<close>

lemma ceil_div_pos:
  assumes "1 \<le> (l::int)"
  shows "ceil_div n l = Some ((n + l - 1) div l)"
proof -
  define q where "q = (- n) div l"
  define r where "r = (- n) mod l"
  have r: "0 \<le> r" "r < l" using assms by (simp_all add: r_def)
  have "- n = l * q + r" by (simp add: q_def r_def)
  then have "n + l - 1 = l * (- q) + (l - 1 - r)" by (simp add: algebra_simps)
  moreover have "0 \<le> l - 1 - r" "l - 1 - r < l" using r by simp_all
  ultimately have "(n + l - 1) div l = - q" by (rule int_div_pos_eq)
  then show ?thesis using assms by (simp add: ceil_div_def q_def)
qed

lemma ceil_div_covers:
  assumes "1 \<le> (l::int)" and "0 \<le> n"
  shows "n \<le> ((n + l - 1) div l) * l" and "0 \<le> (n + l - 1) div l"
proof -
  have "(n + l - 1) div l * l = (n + l - 1) - (n + l - 1) mod l"
    by (simp add: algebra_simps minus_mod_eq_mult_div)
  moreover have "(n + l - 1) mod l \<le> l - 1" using assms(1) by (simp add: zle_diff1_eq)
  ultimately show "n \<le> ((n + l - 1) div l) * l" by linarith
  show "0 \<le> (n + l - 1) div l" using assms by (simp add: pos_imp_zdiv_nonneg_iff)
qed

text \<open>
  Without a search term the list route answers 200 with the requested page of the
  documents that match the filter object and with the metadata of that same query; a
  page beyond the last one is empty.
\<close>

lemma list_without_search:
  assumes "\<not> truthy (q_search q)" and "1 \<le> upd (q_page q) 1" and "1 \<le> upd (q_limit q) 10"
  shows "\<exists>students pg.
           get_students engine q db = ok 200 ''Students retrieved successfully'' (Listing students pg)
         \<and> students = take (nat (upd (q_limit q) 10))
              (drop (nat ((upd (q_page q) 1 - 1) * upd (q_limit q) 10))
                 (sort_students (upd (q_sortBy q) ''createdAt'')
                    (if upd (q_sortOrder q) ''desc'' = ''asc'' then 1 else - 1)
                    (filter (filter_match q) db)))
         \<and> currentPage pg = upd (q_page q) 1
         \<and> studentsPerPage pg = upd (q_limit q) 10
         \<and> totalStudents pg = int (length (filter (filter_match q) db))
         \<and> totalPages pg = Some ((totalStudents pg + upd (q_limit q) 10 - 1) div upd (q_limit q) 10)
         \<and> hasNextPage pg
             = (upd (q_page q) 1 < (totalStudents pg + upd (q_limit q) 10 - 1) div upd (q_limit q) 10)
         \<and> hasPrevPage pg = (1 < upd (q_page q) 1)
         \<and> (if (totalStudents pg + upd (q_limit q) 10 - 1) div upd (q_limit q) 10 < upd (q_page q) 1
             then students = [] else True)"
proof -
  define p where "p = upd (q_page q) 1"
  define l where "l = upd (q_limit q) 10"
  define found where "found = filter (filter_match q) db"
  define n where "n = int (length found)"
  define sorted where "sorted = sort_students (upd (q_sortBy q) ''createdAt'')
                    (if upd (q_sortOrder q) ''desc'' = ''asc'' then 1 else - 1) found"
  have pl: "1 \<le> p" "1 \<le> l" using assms by (simp_all add: p_def l_def)
  have cd: "ceil_div n l = Some ((n + l - 1) div l)" by (rule ceil_div_pos[OF pl(2)])
  have len: "length sorted = length found" by (simp add: sorted_def length_sort_students)
  have beyond: "take (nat l) (drop (nat ((p - 1) * l)) sorted) = []" if "(n + l - 1) div l < p"
  proof -
    have "(n + l - 1) div l \<le> p - 1" using that by simp
    then have "((n + l - 1) div l) * l \<le> (p - 1) * l" using pl(2) by (simp add: mult_right_mono)
    moreover have "n \<le> ((n + l - 1) div l) * l"
      using ceil_div_covers(1)[OF pl(2), of n] by (simp add: n_def)
    ultimately have "n \<le> (p - 1) * l" by linarith
    then have "length sorted \<le> nat ((p - 1) * l)" using len by (simp add: n_def)
    then show ?thesis by simp
  qed
  have "get_students engine q db = ok 200 ''Students retrieved successfully''
          (Listing (take (nat l) (drop (nat ((p - 1) * l)) sorted))
             \<lparr>currentPage = p, totalPages = Some ((n + l - 1) div l), totalStudents = n,
              studentsPerPage = l, hasNextPage = (p < (n + l - 1) div l), hasPrevPage = (1 < p)\<rparr>)"
    using assms(1) skip_limit_page[OF pl, of sorted] cd
    by (simp add: get_students_def Let_def page_before_def
        flip: p_def l_def found_def n_def sorted_def)
  then show ?thesis
    using beyond by (auto simp flip: p_def l_def found_def n_def sorted_def)
qed

text \<open>
  C5. With a search term the list route pages the search result but counts the
  documents that match the filter object. Three active documents, one of which the
  term "asha" matches, and a page size of 1: the page holds the one match, the total is
  3, there are 3 pages and a next page, and page 2 is empty. The search route counts
  its own query: total 1, one page.
\<close>

theorem list_total_ignores_search:
  "(case payload (get_students no_engine
            (query_none\<lparr>q_search := Some ''asha'', q_limit := Some 1\<rparr>)
            [student_A, student_B, student_C]) of
      Listing students pg \<Rightarrow>
        students = [student_A] \<and> totalStudents pg = 3 \<and> totalPages pg = Some 3 \<and>
        hasNextPage pg
    | _ \<Rightarrow> False) \<and>
   students_of (get_students no_engine
            (query_none\<lparr>q_search := Some ''asha'', q_limit := Some 1, q_page := Some 2\<rparr>)
            [student_A, student_B, student_C]) = [] \<and>
   searchStudents no_engine ''asha'' [student_A, student_B, student_C] = Inr [student_A] \<and>
   (case payload (get_search no_engine ''asha'' None (Some 1)
            [student_A, student_B, student_C]) of
      Paged students pg \<Rightarrow>
        students = [student_A] \<and> totalStudents pg = 1 \<and> totalPages pg = Some 1
    | _ \<Rightarrow> False)"
  by code_simp

subsection \<open>Search\<close>

lemma plain_term_simple: "plain_term t \<Longrightarrow> simple_term t"
  by (induction t) (auto simp: plain_term_def simple_term_def)

lemma match_here_plain:
  "list_all (\<lambda>c. c \<noteq> CHR ''.'') t \<Longrightarrow> match_here t s = starts_with (toLowerCase t) (toLowerCase s)"
  by (induction t s rule: match_here.induct) (auto simp: toLowerCase_def char_matches_def)

lemma match_anywhere_plain:
  "list_all (\<lambda>c. c \<noteq> CHR ''.'') t \<Longrightarrow> match_anywhere t s = ci_includes s t"
proof (induction s)
  case Nil
  then show ?case by (cases t) (simp_all add: ci_includes_def toLowerCase_def)
next
  case (Cons c cs)
  have "match_here t (c # cs) = starts_with (toLowerCase t) (toLowerCase (c # cs))"
    using Cons.prems by (rule match_here_plain)
  then show ?case using Cons by (simp add: ci_includes_def toLowerCase_def)
qed

lemma plain_term_no_dot: "plain_term t \<Longrightarrow> list_all (\<lambda>c. c \<noteq> CHR ''.'') t"
  by (induction t) (auto simp: plain_term_def)

lemma searchStudents_plain:
  assumes "plain_term t"
  shows "searchStudents engine t db = Inr (filter (substring_match t) db)"
proof -
  have "search_match (match_anywhere t) = substring_match t"
    using match_anywhere_plain[OF plain_term_no_dot[OF assms]]
    by (auto simp: search_match_def substring_match_def fun_eq_iff)
  then show ?thesis
    using plain_term_simple[OF assms] by (simp add: searchStudents_def regex_i_def)
qed

text \<open>
  C4. In the list route a present search term takes priority over the filters. The term
  is a pattern: when it compiles to the test \<open>test\<close>, the returned documents are the
  requested page, in the requested order, of exactly the active documents whose name,
  email, course or phone passes the test, and when it does not compile the answer is
  500. When the term has no pattern metacharacter, these are exactly the active
  documents in which the term occurs as a case-insensitive substring of one of the four
  values. The \<open>course\<close>, \<open>feeStatus\<close> and \<open>isActive\<close> parameters of the request do not
  occur in the result.
\<close>

theorem list_search_takes_priority:
  assumes "truthy (q_search q)" and "1 \<le> upd (q_page q) 1" and "1 \<le> upd (q_limit q) 10"
  shows "(case regex_i engine (str_of (q_search q)) of
            None \<Rightarrow>
              get_students engine q db
                = failed 500 ''Failed to retrieve students'' (Failure BadRegex)
          | Some test \<Rightarrow>
              students_of (get_students engine q db) =
                take (nat (upd (q_limit q) 10))
                  (drop (nat ((upd (q_page q) 1 - 1) * upd (q_limit q) 10))
                     (sort_students (upd (q_sortBy q) ''createdAt'')
                        (if upd (q_sortOrder q) ''desc'' = ''asc'' then 1 else - 1)
                        (filter (search_match test) db))))
       \<and> (plain_term (str_of (q_search q)) \<longrightarrow>
            students_of (get_students engine q db) =
              take (nat (upd (q_limit q) 10))
                (drop (nat ((upd (q_page q) 1 - 1) * upd (q_limit q) 10))
                   (sort_students (upd (q_sortBy q) ''createdAt'')
                      (if upd (q_sortOrder q) ''desc'' = ''asc'' then 1 else - 1)
                      (filter (substring_match (str_of (q_search q))) db))))"
proof (intro conjI impI)
  show "case regex_i engine (str_of (q_search q)) of
            None \<Rightarrow>
              get_students engine q db
                = failed 500 ''Failed to retrieve students'' (Failure BadRegex)
          | Some test \<Rightarrow>
              students_of (get_students engine q db) =
                take (nat (upd (q_limit q) 10))
                  (drop (nat ((upd (q_page q) 1 - 1) * upd (q_limit q) 10))
                     (sort_students (upd (q_sortBy q) ''createdAt'')
                        (if upd (q_sortOrder q) ''desc'' = ''asc'' then 1 else - 1)
                        (filter (search_match test) db)))"
  proof (cases "regex_i engine (str_of (q_search q))")
    case None
    then show ?thesis using assms(1)
      by (simp add: get_students_def Let_def searchStudents_def)
  next
    case (Some test)
    then show ?thesis
      using assms(1) skip_limit_page[OF assms(2) assms(3)]
      by (simp add: get_students_def Let_def searchStudents_def students_of_def ok_def)
  qed
next
  assume p: "plain_term (str_of (q_search q))"
  show "students_of (get_students engine q db) =
              take (nat (upd (q_limit q) 10))
                (drop (nat ((upd (q_page q) 1 - 1) * upd (q_limit q) 10))
                   (sort_students (upd (q_sortBy q) ''createdAt'')
                      (if upd (q_sortOrder q) ''desc'' = ''asc'' then 1 else - 1)
                      (filter (substring_match (str_of (q_search q))) db)))"
    using assms(1) searchStudents_plain[OF p] skip_limit_page[OF assms(2) assms(3)]
    by (simp add: get_students_def Let_def students_of_def ok_def)
qed

theorem list_search_takes_priority_witness:
  "truthy (q_search q_dot) \<and> 1 \<le> upd (q_page q_dot) 1 \<and> 1 \<le> upd (q_limit q_dot) 10 \<and>
   regex_i no_engine (str_of (q_search q_dot)) = Some (match_anywhere ''b.b'') \<and>
   students_of (get_students no_engine q_dot [student_A, student_B, student_C]) = [student_B] \<and>
   truthy (q_search q_paren) \<and> 1 \<le> upd (q_page q_paren) 1 \<and> 1 \<le> upd (q_limit q_paren) 10 \<and>
   regex_i no_engine (str_of (q_search q_paren)) = None \<and>
   get_students no_engine q_paren [student_A, student_B, student_C]
     = failed 500 ''Failed to retrieve students'' (Failure BadRegex) \<and>
   truthy (q_search q_phys) \<and> 1 \<le> upd (q_page q_phys) 1 \<and> 1 \<le> upd (q_limit q_phys) 10 \<and>
   plain_term (str_of (q_search q_phys)) \<and>
   students_of (get_students no_engine q_phys [student_A, student_B, student_C])
     = [student_A, student_B, student_C] \<and>
   truthy (q_search q_caret) \<and> 1 \<le> upd (q_page q_caret) 1 \<and> 1 \<le> upd (q_limit q_caret) 10 \<and>
   regex_i caret_engine (str_of (q_search q_caret)) = Some (match_here ''bob'') \<and>
   students_of (get_students caret_engine q_caret [student_A, student_B, student_C])
     = [student_B]"
proof -
  let ?db = "[student_A, student_B, student_C]"
  have a: "truthy (q_search q_dot)" "1 \<le> upd (q_page q_dot) 1" "1 \<le> upd (q_limit q_dot) 10"
    by code_simp+
  have s: "simple_term ''b.b''" by code_simp
  have r: "regex_i no_engine (str_of (q_search q_dot)) = Some (match_anywhere ''b.b'')"
    using s by (simp add: regex_i_def q_dot_def query_none_def str_of_def)
  have e: "take (nat (upd (q_limit q_dot) 10))
             (drop (nat ((upd (q_page q_dot) 1 - 1) * upd (q_limit q_dot) 10))
                (sort_students (upd (q_sortBy q_dot) ''createdAt'')
                   (if upd (q_sortOrder q_dot) ''desc'' = ''asc'' then 1 else - 1)
                   (filter (search_match (match_anywhere ''b.b'')) ?db)))
           = [student_B]"
    by code_simp
  have 1: "students_of (get_students no_engine q_dot ?db) = [student_B]"
    using list_search_takes_priority[OF a, of no_engine ?db] r e by simp
  have b: "truthy (q_search q_paren)" "1 \<le> upd (q_page q_paren) 1" "1 \<le> upd (q_limit q_paren) 10"
    by code_simp+
  have n: "regex_i no_engine (str_of (q_search q_paren)) = None" by code_simp
  have 2: "get_students no_engine q_paren ?db
             = failed 500 ''Failed to retrieve students'' (Failure BadRegex)"
    using list_search_takes_priority[OF b, of no_engine ?db] n by simp
  have c: "truthy (q_search q_phys)" "1 \<le> upd (q_page q_phys) 1" "1 \<le> upd (q_limit q_phys) 10"
    by code_simp+
  have p: "plain_term (str_of (q_search q_phys))" by code_simp
  have f: "take (nat (upd (q_limit q_phys) 10))
             (drop (nat ((upd (q_page q_phys) 1 - 1) * upd (q_limit q_phys) 10))
                (sort_students (upd (q_sortBy q_phys) ''createdAt'')
                   (if upd (q_sortOrder q_phys) ''desc'' = ''asc'' then 1 else - 1)
                   (filter (substring_match (str_of (q_search q_phys))) ?db)))
           = ?db"
    by code_simp
  have 3: "students_of (get_students no_engine q_phys ?db) = ?db"
    using list_search_takes_priority[OF c, of no_engine ?db] p f by simp
  have g: "truthy (q_search q_caret)" "1 \<le> upd (q_page q_caret) 1"
    "1 \<le> upd (q_limit q_caret) 10"
    by code_simp+
  have ns: "\<not> simple_term ''^bob''" by code_simp
  have pb: "plain_term ''bob''" by code_simp
  have rc: "regex_i caret_engine (str_of (q_search q_caret)) = Some (match_here ''bob'')"
    using ns pb by (simp add: regex_i_def caret_engine_def q_caret_def query_none_def str_of_def)
  have h: "take (nat (upd (q_limit q_caret) 10))
             (drop (nat ((upd (q_page q_caret) 1 - 1) * upd (q_limit q_caret) 10))
                (sort_students (upd (q_sortBy q_caret) ''createdAt'')
                   (if upd (q_sortOrder q_caret) ''desc'' = ''asc'' then 1 else - 1)
                   (filter (search_match (match_here ''bob'')) ?db)))
           = [student_B]"
    by code_simp
  have 4: "students_of (get_students caret_engine q_caret ?db) = [student_B]"
    using list_search_takes_priority[OF g, of caret_engine ?db] rc h by simp
  show ?thesis using a r 1 b n 2 c p 3 g rc 4 by simp
qed

text \<open>
  The search term is a pattern, not a substring: the term "b.b" returns a document none
  of whose four values contains "b.b" (its name starts with "Bob").
\<close>

theorem search_term_is_a_pattern:
  "students_of (get_students no_engine (query_none\<lparr>q_search := Some ''b.b''\<rparr>) [student_B])
     = [student_B] \<and>
   \<not> (ci_includes (name student_B) ''b.b'' \<or> ci_includes (email student_B) ''b.b'' \<or>
      ci_includes (course student_B) ''b.b'' \<or> ci_includes (phone student_B) ''b.b'')"
  by code_simp

section \<open>Validation on create\<close>

text \<open>
  C9. A create with course "Astrology - Class 5" passes the validation middleware,
  which only requires a course that is not empty; the document fails the schema's
  validation inside \<open>save\<close>, after the lookup by email, and the route answers 500
  "Failed to create student". A create with fee amount 60000 is answered 400 with the
  field-level message of the fee range.
\<close>

theorem create_unknown_course_is_500:
  "validateStudent_errors default_lib (body_A\<lparr>in_course := Some ''Astrology - Class 5''\<rparr>) = [] \<and>
   post_student default_lib oid_A t_jan15 t_jan15
       (body_A\<lparr>in_course := Some ''Astrology - Class 5''\<rparr>) []
     = (failed 500 ''Failed to create student''
          (Failure (ValidationError [(''course'', ''Please select a valid course'')])), []) \<and>
   post_student default_lib oid_A t_jan15 t_jan15 (body_A\<lparr>in_feeAmount := Some 60000\<rparr>) []
     = (validation_failed [(''feeAmount'', fee_max_msg)], [])"
  by code_simp

subsection \<open>The email patterns of the route and of the schema\<close>

lemma in_email_new_Student:
  "in_email (new_Student t0 (validateStudent_body lib body)) = Some (email_key lib body)"
  by (simp add: new_Student_def apply_setters_def validateStudent_body_def email_key_def Let_def)

lemma email_errors_mismatch:
  "\<not> email_match x \<Longrightarrow> \<exists>msg. email_errors (Some x) = [(''email'', msg)]"
  by (simp add: email_errors_def has_text_def matches_def holds_def)

lemma schema_errors_email:
  assumes "email_errors (in_email d) = [(''email'', msg)]"
  shows "(''email'', msg) \<in> set (schema_errors d)"
  using assms by (simp add: schema_errors_def)

lemma post_student_unfold:
  assumes "validateStudent_errors lib body = []"
  shows "post_student lib oid t0 now body db =
           (case findOne_email (normalizeEmail lib (str_of (in_email body))) db of
              Some existingStudent \<Rightarrow> (email_conflict, db)
            | None \<Rightarrow> post_write oid t0 now (validateStudent_body lib body) db)"
  using assms
  by (simp add: post_student_def post_check_def Let_def validateStudent_body_def str_of_def
           split: option.splits)

text \<open>
  C10. A create whose address the route-level check accepts but the schema's pattern
  rejects (and that no stored document has) passes the validation middleware, fails
  inside \<open>save\<close> with a validation error on the path \<open>email\<close>, and is answered 500
  "Failed to create student"; nothing is stored. The address \<open>a@b.info\<close>, whose last
  domain label has four letters, is such an address (\<open>long_last_label_rejected\<close>).
\<close>

theorem unmatched_email_is_500:
  assumes "validateStudent_errors lib body = []"
      and "findOne_email (normalizeEmail lib (str_of (in_email body))) db = None"
      and "\<not> email_match (set_email (normalizeEmail lib (str_of (in_email body))))"
  shows "\<exists>errs msg. post_student lib oid t0 now body db
             = (failed 500 ''Failed to create student'' (Failure (ValidationError errs)), db)
           \<and> (''email'', msg) \<in> set errs"
proof -
  let ?d = "new_Student t0 (validateStudent_body lib body)"
  obtain msg where m: "email_errors (in_email ?d) = [(''email'', msg)]"
    using email_errors_mismatch[OF assms(3)] by (auto simp: in_email_new_Student email_key_def)
  have mem: "(''email'', msg) \<in> set (schema_errors ?d)" by (rule schema_errors_email[OF m])
  then have ne: "schema_errors ?d \<noteq> []" by auto
  have "post_student lib oid t0 now body db = post_write oid t0 now (validateStudent_body lib body) db"
    using assms(2) by (simp add: post_student_unfold[OF assms(1)])
  also have "\<dots> = (failed 500 ''Failed to create student''
                      (Failure (ValidationError (schema_errors ?d))), db)"
    using ne by (simp add: post_write_def save_new_def catch_write_def)
  finally show ?thesis using mem by blast
qed

theorem unmatched_email_is_500_witness:
  "validateStudent_errors default_lib body_info = [] \<and>
   findOne_email (normalizeEmail default_lib (str_of (in_email body_info))) [] = None \<and>
   \<not> email_match (set_email (normalizeEmail default_lib (str_of (in_email body_info)))) \<and>
   (\<exists>errs msg. post_student default_lib oid_A t_jan15 t_jan15 body_info []
             = (failed 500 ''Failed to create student'' (Failure (ValidationError errs)), [])
           \<and> (''email'', msg) \<in> set errs)"
proof -
  have a: "validateStudent_errors default_lib body_info = []" by code_simp
  have b: "findOne_email (normalizeEmail default_lib (str_of (in_email body_info))) [] = None"
    by (simp add: findOne_email_def)
  have c: "\<not> email_match (set_email (normalizeEmail default_lib (str_of (in_email body_info))))"
    by code_simp
  show ?thesis
    using a b c unmatched_email_is_500[OF a b c, of oid_A t_jan15 t_jan15] by blast
qed

section \<open>Duplicate emails\<close>

lemma find_Some_iff_ex: "(\<exists>x. find P xs = Some x) \<longleftrightarrow> (\<exists>x\<in>set xs. P x)"
  by (induction xs) auto

lemma findOne_email_hit:
  assumes "\<exists>s\<in>set db. email s = email_key lib body"
  shows "\<exists>s. findOne_email (normalizeEmail lib (str_of (in_email body))) db = Some s"
  using assms unfolding findOne_email_def email_key_def by (simp add: find_Some_iff_ex)

lemma pre_save_email: "email (pre_save now isNew m s) = email s"
  by (simp add: pre_save_def Let_def)

lemma pre_save_sid: "sid (pre_save now isNew m s) = sid s"
  by (simp add: pre_save_def Let_def)

lemma to_student_email:
  "to_student oid now d = Some s \<Longrightarrow> in_email d = Some (email s)"
  by (auto simp: to_student_def Option.bind_eq_Some_conv)

lemma required_text: "first_failure p ((has_text v, m) # rest) = [] \<Longrightarrow> \<exists>x. v = Some x"
  by (cases v) (simp_all add: has_text_def)

lemma required_value: "first_failure p ((v \<noteq> None, m) # rest) = [] \<Longrightarrow> \<exists>x. v = Some x"
  by (cases v) simp_all

text \<open>A document that passes the schema's validation has every required path.\<close>

lemma schema_ok_to_student:
  assumes "schema_errors d = []" and "in_isActive d \<noteq> None"
  shows "\<exists>s. to_student oid now d = Some s"
proof -
  have e: "name_errors (in_name d) = []" "email_errors (in_email d) = []"
    "phone_errors (in_phone d) = []" "address_errors (in_address d) = []"
    "course_errors (in_course d) = []" "batchTime_errors (in_batchTime d) = []"
    "feeAmount_errors (in_feeAmount d) = []" "feeStatus_errors (in_feeStatus d) = []"
    "joinDate_errors (in_joinDate d) = []" "guardianName_errors (in_guardianName d) = []"
    "guardianPhone_errors (in_guardianPhone d) = []"
    using assms by (simp_all add: schema_errors_def)
  obtain nm where 1: "in_name d = Some nm"
    using e(1) required_text unfolding name_errors_def by blast
  obtain em where 2: "in_email d = Some em"
    using e(2) required_text unfolding email_errors_def by blast
  obtain ph where 3: "in_phone d = Some ph"
    using e(3) required_text unfolding phone_errors_def by blast
  obtain ad where 4: "in_address d = Some ad"
    using e(4) required_text unfolding address_errors_def by blast
  obtain co where 5: "in_course d = Some co"
    using e(5) required_text unfolding course_errors_def by blast
  obtain bt where 6: "in_batchTime d = Some bt"
    using e(6) required_text unfolding batchTime_errors_def by blast
  obtain fa where 7: "in_feeAmount d = Some fa"
    using e(7) required_value unfolding feeAmount_errors_def by blast
  obtain fs where 8: "in_feeStatus d = Some fs"
    using e(8) required_text unfolding feeStatus_errors_def by blast
  obtain jd where 9: "in_joinDate d = Some jd"
    using e(9) required_value unfolding joinDate_errors_def by blast
  obtain gn where 10: "in_guardianName d = Some gn"
    using e(10) required_text unfolding guardianName_errors_def by blast
  obtain gp where 11: "in_guardianPhone d = Some gp"
    using e(11) required_text unfolding guardianPhone_errors_def by blast
  obtain ia where 12: "in_isActive d = Some ia" using assms(2) by auto
  show ?thesis by (simp add: to_student_def 1 2 3 4 5 6 7 8 9 10 11 12)
qed

lemma save_new_result:
  assumes "save_new oid now d db = Inr (s, db')"
  shows "db' = db @ [s] \<and> in_email d = Some (email s) \<and> sid s = oid"
proof -
  from assms obtain s0 where s0: "to_student oid now d = Some s0"
    by (auto simp: save_new_def split: if_splits option.splits)
  let ?s = "pre_save now True (in_lastFeePayment d \<noteq> None) s0"
  from assms s0 have "s = ?s" "db' = db @ [?s]"
    by (auto simp: save_new_def insertOne_def Let_def split: if_splits sum.splits)
  moreover have "sid s0 = oid" using s0 by (auto simp: to_student_def Option.bind_eq_Some_conv)
  ultimately show ?thesis using to_student_email[OF s0] by (simp add: pre_save_email pre_save_sid)
qed

lemma status_catch_write: "status (catch_write msg err) \<noteq> 201"
  by (simp add: catch_write_def email_conflict_def failed_def)

lemma post_student_created:
  assumes "post_student lib oid t0 now body db = (r, db')" and "status r = 201"
  shows "\<exists>s. db' = db @ [s] \<and> email s = email_key lib body \<and> payload r = Doc s"
proof -
  have v: "validateStudent_errors lib body = []"
    using assms by (auto simp: post_student_def post_check_def validation_failed_def failed_def
        split: if_splits)
  have w: "post_write oid t0 now (validateStudent_body lib body) db = (r, db')"
    using assms by (auto simp: post_student_unfold[OF v] email_conflict_def failed_def
        split: option.splits)
  then obtain s where s: "save_new oid now (new_Student t0 (validateStudent_body lib body)) db = Inr (s, db')"
      and r: "r = ok 201 ''Student created successfully'' (Doc s)"
    using assms(2) status_catch_write
    by (auto simp: post_write_def split: sum.splits)
  show ?thesis using save_new_result[OF s] r by (simp add: in_email_new_Student ok_def)
qed

lemma find_None_iff_ex: "find P xs = None \<longleftrightarrow> \<not> (\<exists>x\<in>set xs. P x)"
  by (induction xs) auto

text \<open>
  A create that passes the validation middleware and the schema's validation, on a
  store that has neither the address nor the identifier, is answered 201 and appends
  its document.
\<close>

lemma create_succeeds:
  assumes v: "validateStudent_errors lib body = []"
      and sc: "schema_errors (new_Student t0 (validateStudent_body lib body)) = []"
      and ne: "\<not> (\<exists>s\<in>set db. email s = email_key lib body)"
      and ni: "\<not> (\<exists>s\<in>set db. sid s = oid)"
  shows "\<exists>s. post_student lib oid t0 now body db
               = (ok 201 ''Student created successfully'' (Doc s), db @ [s])
           \<and> email s = email_key lib body \<and> sid s = oid"
proof -
  let ?d = "new_Student t0 (validateStudent_body lib body)"
  have f: "findOne_email (normalizeEmail lib (str_of (in_email body))) db = None"
    using ne by (simp add: findOne_email_def email_key_def find_None_iff_ex)
  have "in_isActive ?d \<noteq> None"
    by (auto simp: new_Student_def Let_def default_to_def split: option.splits)
  then obtain s0 where s0: "to_student oid now ?d = Some s0"
    using schema_ok_to_student sc by blast
  define s where "s = pre_save now True (in_lastFeePayment ?d \<noteq> None) s0"
  have e: "email s = email_key lib body"
    using to_student_email[OF s0] by (simp add: s_def pre_save_email in_email_new_Student)
  have i: "sid s = oid"
    using s0 by (auto simp: s_def pre_save_sid to_student_def Option.bind_eq_Some_conv)
  have "\<not> list_ex (\<lambda>t. sid t = sid s \<or> email t = email s) db"
    using ne ni e i by (auto simp: list_ex_iff)
  then have "save_new oid now ?d db = Inr (s, db @ [s])"
    using s0 sc by (simp add: save_new_def insertOne_def Let_def s_def)
  then have "post_student lib oid t0 now body db
               = (ok 201 ''Student created successfully'' (Doc s), db @ [s])"
    using f by (simp add: post_student_unfold[OF v] post_write_def)
  then show ?thesis using e i by blast
qed

lemma create_then_conflict:
  assumes v1: "validateStudent_errors lib body1 = []"
      and sc1: "schema_errors (new_Student t1 (validateStudent_body lib body1)) = []"
      and v2: "validateStudent_errors lib body2 = []"
      and k: "email_key lib body2 = email_key lib body1"
      and ne: "\<not> (\<exists>s\<in>set db. email s = email_key lib body1)"
      and ni: "\<not> (\<exists>s\<in>set db. sid s = oid1)"
  shows "\<exists>s1. post_student lib oid1 t1 now1 body1 db
                = (ok 201 ''Student created successfully'' (Doc s1), db @ [s1])
            \<and> post_student lib oid2 t2 now2 body2 (db @ [s1]) = (email_conflict, db @ [s1])"
proof -
  obtain s1 where c: "post_student lib oid1 t1 now1 body1 db
                = (ok 201 ''Student created successfully'' (Doc s1), db @ [s1])"
      and e: "email s1 = email_key lib body1"
    using create_succeeds[OF v1 sc1 ne ni] by blast
  have d: "\<exists>s\<in>set (db @ [s1]). email s = email_key lib body2" using e k by auto
  have "post_student lib oid2 t2 now2 body2 (db @ [s1]) = (email_conflict, db @ [s1])"
    using findOne_email_hit[OF d] by (auto simp: post_student_unfold[OF v2])
  then show ?thesis using c by blast
qed

text \<open>
  C7. For a create that passes the validation middleware: if a stored document (active
  or not) has the request's normalised email, the answer is the conflict response and
  the store is unchanged; the write path gives the same response and leaves the store
  unchanged when the lookup was passed on an older state of the store and the unique
  index fires on the insert of the (schema-valid) document; after any successful
  create, a create with the same normalised email is answered with the conflict; and
  two creates with the same normalised email that both pass the middleware and the
  schema, on a store that has neither the address nor their identifiers, give one 201
  and then one conflict in either order, the store keeping the first one's document
  and nothing else new.
\<close>

theorem duplicate_email_conflict:
  assumes "validateStudent_errors lib body = []"
  shows "((\<exists>s\<in>set db. email s = email_key lib body)
            \<longrightarrow> post_student lib oid t0 now body db = (email_conflict, db))
       \<and> ((\<exists>s\<in>set db. email s = email_key lib body)
            \<and> schema_errors (new_Student t0 (validateStudent_body lib body)) = []
            \<longrightarrow> post_write oid t0 now (validateStudent_body lib body) db = (email_conflict, db))
       \<and> (\<forall>oid1 t1 now1 body1 db0 r1.
             post_student lib oid1 t1 now1 body1 db0 = (r1, db) \<and> status r1 = 201
             \<and> email_key lib body1 = email_key lib body
             \<longrightarrow> post_student lib oid t0 now body db = (email_conflict, db))
       \<and> (\<forall>oid2 t2 now2 body2.
             validateStudent_errors lib body2 = []
             \<and> schema_errors (new_Student t0 (validateStudent_body lib body)) = []
             \<and> schema_errors (new_Student t2 (validateStudent_body lib body2)) = []
             \<and> email_key lib body2 = email_key lib body
             \<and> \<not> (\<exists>s\<in>set db. email s = email_key lib body)
             \<and> \<not> (\<exists>s\<in>set db. sid s = oid) \<and> \<not> (\<exists>s\<in>set db. sid s = oid2)
             \<longrightarrow> (\<exists>s1. post_student lib oid t0 now body db
                          = (ok 201 ''Student created successfully'' (Doc s1), db @ [s1])
                      \<and> post_student lib oid2 t2 now2 body2 (db @ [s1])
                          = (email_conflict, db @ [s1]))
               \<and> (\<exists>s2. post_student lib oid2 t2 now2 body2 db
                          = (ok 201 ''Student created successfully'' (Doc s2), db @ [s2])
                      \<and> post_student lib oid t0 now body (db @ [s2])
                          = (email_conflict, db @ [s2])))"
proof (intro conjI allI impI)
  assume d: "\<exists>s\<in>set db. email s = email_key lib body"
  show "post_student lib oid t0 now body db = (email_conflict, db)"
    using findOne_email_hit[OF d] by (auto simp: post_student_unfold[OF assms])
next
  assume a: "(\<exists>s\<in>set db. email s = email_key lib body)
            \<and> schema_errors (new_Student t0 (validateStudent_body lib body)) = []"
  let ?d = "new_Student t0 (validateStudent_body lib body)"
  have "in_isActive ?d \<noteq> None"
    by (auto simp: new_Student_def Let_def default_to_def split: option.splits)
  then obtain s0 where s0: "to_student oid now ?d = Some s0"
    using schema_ok_to_student a by blast
  have "email s0 = email_key lib body"
    using to_student_email[OF s0] by (simp add: in_email_new_Student)
  then have "list_ex (\<lambda>t. sid t = sid (pre_save now True (in_lastFeePayment ?d \<noteq> None) s0)
                        \<or> email t = email (pre_save now True (in_lastFeePayment ?d \<noteq> None) s0)) db"
    using a by (auto simp: list_ex_iff pre_save_email)
  then have "save_new oid now ?d db = Inl DuplicateKey"
    using s0 a by (simp add: save_new_def insertOne_def Let_def)
  then show "post_write oid t0 now (validateStudent_body lib body) db = (email_conflict, db)"
    by (simp add: post_write_def catch_write_def)
next
  fix oid1 t1 now1 body1 db0 r1
  assume a: "post_student lib oid1 t1 now1 body1 db0 = (r1, db) \<and> status r1 = 201
             \<and> email_key lib body1 = email_key lib body"
  then obtain s where "db = db0 @ [s]" "email s = email_key lib body1"
    using post_student_created by blast
  then have d: "\<exists>s\<in>set db. email s = email_key lib body" using a by auto
  show "post_student lib oid t0 now body db = (email_conflict, db)"
    using findOne_email_hit[OF d] by (auto simp: post_student_unfold[OF assms])
next
  fix oid2 t2 now2 body2
  assume a: "validateStudent_errors lib body2 = []
             \<and> schema_errors (new_Student t0 (validateStudent_body lib body)) = []
             \<and> schema_errors (new_Student t2 (validateStudent_body lib body2)) = []
             \<and> email_key lib body2 = email_key lib body
             \<and> \<not> (\<exists>s\<in>set db. email s = email_key lib body)
             \<and> \<not> (\<exists>s\<in>set db. sid s = oid) \<and> \<not> (\<exists>s\<in>set db. sid s = oid2)"
  show "\<exists>s1. post_student lib oid t0 now body db
                 = (ok 201 ''Student created successfully'' (Doc s1), db @ [s1])
             \<and> post_student lib oid2 t2 now2 body2 (db @ [s1]) = (email_conflict, db @ [s1])"
    using create_then_conflict[OF assms, of t0 body2 db oid now oid2 t2 now2] a by blast
next
  fix oid2 t2 now2 body2
  assume a: "validateStudent_errors lib body2 = []
             \<and> schema_errors (new_Student t0 (validateStudent_body lib body)) = []
             \<and> schema_errors (new_Student t2 (validateStudent_body lib body2)) = []
             \<and> email_key lib body2 = email_key lib body
             \<and> \<not> (\<exists>s\<in>set db. email s = email_key lib body)
             \<and> \<not> (\<exists>s\<in>set db. sid s = oid) \<and> \<not> (\<exists>s\<in>set db. sid s = oid2)"
  then have v2: "validateStudent_errors lib body2 = []"
      and sc2: "schema_errors (new_Student t2 (validateStudent_body lib body2)) = []"
      and k: "email_key lib body = email_key lib body2"
      and ne: "\<not> (\<exists>s\<in>set db. email s = email_key lib body2)"
      and ni: "\<not> (\<exists>s\<in>set db. sid s = oid2)"
    by simp_all
  show "\<exists>s2. post_student lib oid2 t2 now2 body2 db
                 = (ok 201 ''Student created successfully'' (Doc s2), db @ [s2])
             \<and> post_student lib oid t0 now body (db @ [s2]) = (email_conflict, db @ [s2])"
    by (rule create_then_conflict[OF v2 sc2 assms k ne ni])
qed

theorem duplicate_email_conflict_witness:
  "validateStudent_errors default_lib body_B = [] \<and>
   (\<exists>s\<in>set [student_A]. email s = email_key default_lib body_B) \<and>
   post_student default_lib oid_B t_jun10 t_jun10 body_B [student_A] = (email_conflict, [student_A]) \<and>
   schema_errors (new_Student t_jun10 (validateStudent_body default_lib body_B)) = [] \<and>
   post_write oid_B t_jun10 t_jun10 (validateStudent_body default_lib body_B) [student_A]
     = (email_conflict, [student_A]) \<and>
   post_student default_lib oid_A t_jan15 t_jan15 body_A []
     = (ok 201 ''Student created successfully'' (Doc student_A), [student_A]) \<and>
   email_key default_lib body_A = email_key default_lib body_B \<and>
   validateStudent_errors default_lib body_A = [] \<and>
   schema_errors (new_Student t_jan15 (validateStudent_body default_lib body_A)) = [] \<and>
   \<not> (\<exists>s\<in>set []. email s = email_key default_lib body_B) \<and>
   \<not> (\<exists>s\<in>set ([] :: store). sid s = oid_B) \<and> \<not> (\<exists>s\<in>set ([] :: store). sid s = oid_A) \<and>
   (\<exists>s1. post_student default_lib oid_B t_jun10 t_jun10 body_B []
            = (ok 201 ''Student created successfully'' (Doc s1), [] @ [s1])
        \<and> post_student default_lib oid_A t_jan15 t_jan15 body_A ([] @ [s1])
            = (email_conflict, [] @ [s1])) \<and>
   (\<exists>s2. post_student default_lib oid_A t_jan15 t_jan15 body_A []
            = (ok 201 ''Student created successfully'' (Doc s2), [] @ [s2])
        \<and> post_student default_lib oid_B t_jun10 t_jun10 body_B ([] @ [s2])
            = (email_conflict, [] @ [s2]))"
proof -
  have a: "validateStudent_errors default_lib body_B = []" by code_simp
  have b: "\<exists>s\<in>set [student_A]. email s = email_key default_lib body_B" by code_simp
  have c: "schema_errors (new_Student t_jun10 (validateStudent_body default_lib body_B)) = []"
    by code_simp
  have d: "post_student default_lib oid_A t_jan15 t_jan15 body_A []
             = (ok 201 ''Student created successfully'' (Doc student_A), [student_A])"
    by code_simp
  have e: "email_key default_lib body_A = email_key default_lib body_B" by code_simp
  have f: "status (ok 201 ''Student created successfully'' (Doc student_A)) = 201"
    by (simp add: ok_def)
  have g: "validateStudent_errors default_lib body_A = []" by code_simp
  have h: "schema_errors (new_Student t_jan15 (validateStudent_body default_lib body_A)) = []"
    by code_simp
  have i: "\<not> (\<exists>s\<in>set []. email s = email_key default_lib body_B)"
    "\<not> (\<exists>s\<in>set ([] :: store). sid s = oid_B)" "\<not> (\<exists>s\<in>set ([] :: store). sid s = oid_A)"
    by simp_all
  note t1 = duplicate_email_conflict[OF a, of "[student_A]" oid_B t_jun10 t_jun10]
  note t2 = duplicate_email_conflict[OF a, of "[]" oid_B t_jun10 t_jun10]
  have j: "(\<exists>s1. post_student default_lib oid_B t_jun10 t_jun10 body_B []
            = (ok 201 ''Student created successfully'' (Doc s1), [] @ [s1])
        \<and> post_student default_lib oid_A t_jan15 t_jan15 body_A ([] @ [s1])
            = (email_conflict, [] @ [s1])) \<and>
   (\<exists>s2. post_student default_lib oid_A t_jan15 t_jan15 body_A []
            = (ok 201 ''Student created successfully'' (Doc s2), [] @ [s2])
        \<and> post_student default_lib oid_B t_jun10 t_jun10 body_B ([] @ [s2])
            = (email_conflict, [] @ [s2]))"
    using t2 g c h e i by blast
  have k: "post_student default_lib oid_B t_jun10 t_jun10 body_B [student_A] = (email_conflict, [student_A])"
    "post_write oid_B t_jun10 t_jun10 (validateStudent_body default_lib body_B) [student_A]
     = (email_conflict, [student_A])"
    using t1 b c by blast+
  show ?thesis using a b c d e g h i j k by blast
qed

section \<open>Deactivation\<close>














end
